theory Spec2Isabelle
  imports Complex_Main
begin

section \<open>JavaScript values\<close>

text \<open>
  The sources are JavaScript. A Number is a double: the model keeps the three special
  doubles apart and reads a finite double as the rational it denotes (the two zeros are
  identified). The operations that round are not computed here but taken as parameters:
  the conversion of a string to a Number, and the sum of two finite doubles.
\<close>

datatype number = NaN | NegInf | Fin rat | PosInf

datatype jsval = JUndefined | JNull | JBool bool | JNum number | JStr string

text \<open>\<^verbatim>\<open>isNaN\<close> and \<^verbatim>\<open>Number.isNaN\<close> on a Number.\<close>

fun isNaN :: "number \<Rightarrow> bool" where
  "isNaN NaN = True"
| "isNaN _ = False"

text \<open>\<^verbatim>\<open>Number.isInteger\<close>: finite and without fractional part.\<close>

fun isInteger :: "number \<Rightarrow> bool" where
  "isInteger (Fin r) = (of_int \<lfloor>r\<rfloor> = r)"
| "isInteger _ = False"

text \<open>
  The operator \<^verbatim>\<open>+\<close> on two Numbers. The sum of two finite doubles is the parameter
  \<open>fin_add\<close>: the language rounds the exact sum to the nearest double and gives an
  infinity when it overflows. The cases with NaN or an infinity are those of the
  language.
\<close>

fun num_add :: "(rat \<Rightarrow> rat \<Rightarrow> number) \<Rightarrow> number \<Rightarrow> number \<Rightarrow> number" where
  "num_add fin_add NaN _ = NaN"
| "num_add fin_add _ NaN = NaN"
| "num_add fin_add PosInf NegInf = NaN"
| "num_add fin_add NegInf PosInf = NaN"
| "num_add fin_add PosInf _ = PosInf"
| "num_add fin_add _ PosInf = PosInf"
| "num_add fin_add NegInf _ = NegInf"
| "num_add fin_add _ NegInf = NegInf"
| "num_add fin_add (Fin a) (Fin b) = fin_add a b"

text \<open>The operator \<^verbatim>\<open><\<close> on two Numbers: every comparison with NaN is false.\<close>

fun num_lt :: "number \<Rightarrow> number \<Rightarrow> bool" where
  "num_lt NaN _ = False"
| "num_lt _ NaN = False"
| "num_lt _ NegInf = False"
| "num_lt NegInf _ = True"
| "num_lt PosInf _ = False"
| "num_lt _ PosInf = True"
| "num_lt (Fin a) (Fin b) = (a < b)"

definition num_gt :: "number \<Rightarrow> number \<Rightarrow> bool" where
  "num_gt a b = num_lt b a"

text \<open>\<^verbatim>\<open>a <= b\<close>, used to say that a value lies in a closed interval.\<close>

fun num_le :: "number \<Rightarrow> number \<Rightarrow> bool" where
  "num_le NaN _ = False"
| "num_le _ NaN = False"
| "num_le NegInf _ = True"
| "num_le _ PosInf = True"
| "num_le _ NegInf = False"
| "num_le PosInf _ = False"
| "num_le (Fin a) (Fin b) = (a \<le> b)"

text \<open>Truthiness, as \<^verbatim>\<open>if (v)\<close>, \<^verbatim>\<open>!v\<close> and \<^verbatim>\<open>v || w\<close> test it.\<close>

fun truthy :: "jsval \<Rightarrow> bool" where
  "truthy JUndefined = False"
| "truthy JNull = False"
| "truthy (JBool b) = b"
| "truthy (JNum NaN) = False"
| "truthy (JNum (Fin r)) = (r \<noteq> 0)"
| "truthy (JNum _) = True"
| "truthy (JStr s) = (s \<noteq> [])"

text \<open>
  \<^verbatim>\<open>Number(v)\<close>. The conversion of a string (StringToNumber of the language) is the
  parameter \<open>str2num\<close>: the definitions and theorems below hold for every such function.
\<close>

fun Number :: "(string \<Rightarrow> number) \<Rightarrow> jsval \<Rightarrow> number" where
  "Number str2num JUndefined = NaN"
| "Number str2num JNull = Fin 0"
| "Number str2num (JBool b) = (if b then Fin 1 else Fin 0)"
| "Number str2num (JNum n) = n"
| "Number str2num (JStr s) = str2num s"

text \<open>Strict equality \<^verbatim>\<open>===\<close> on these values; \<^verbatim>\<open>!==\<close> is its negation.\<close>

fun strict_eq :: "jsval \<Rightarrow> jsval \<Rightarrow> bool" where
  "strict_eq (JNum a) (JNum b) = (\<not> isNaN a \<and> a = b)"
| "strict_eq v w = (v = w)"

text \<open>\<^verbatim>\<open>s.startsWith(p)\<close>.\<close>

definition startsWith :: "string \<Rightarrow> string \<Rightarrow> bool" where
  "startsWith s p = (take (length p) s = p)"

text \<open>
  A plain object is a finite map from property names to values; reading a property the
  object does not have gives \<^verbatim>\<open>undefined\<close>.
\<close>

type_synonym obj = "string \<rightharpoonup> jsval"

definition getProp :: "obj \<Rightarrow> string \<Rightarrow> jsval" where
  "getProp ob k = (case ob k of None \<Rightarrow> JUndefined | Some v \<Rightarrow> v)"

text \<open>A default parameter value applies exactly when the argument is \<^verbatim>\<open>undefined\<close>.\<close>

definition dflt :: "jsval \<Rightarrow> jsval \<Rightarrow> jsval" where
  "dflt d v = (if v = JUndefined then d else v)"

datatype error = Error string | ReferenceError string

section \<open>NumberField (module/sheets/components/NumberField.js)\<close>

text \<open>
  An instance is made of the nine values its constructor hands to the constructor of the
  base class InputComponent (which is not among the sources) and of its own five private
  fields. Every one is a JavaScript value: the constructor stores what it is given.
\<close>

record numberField =
  key :: jsval
  tooltip :: jsval
  templateAddress :: jsval
  label :: jsval
  defaultValue :: jsval
  size' :: jsval
  cssClass :: jsval
  role :: jsval
  permission :: jsval
  allowDecimal :: jsval
  minVal :: jsval
  maxVal :: jsval
  allowRelative :: jsval
  showControls :: jsval

text \<open>
  The constructor destructures its argument; a default value stands in for a property
  that is \<^verbatim>\<open>undefined\<close>. \<^verbatim>\<open>key\<close> and \<^verbatim>\<open>templateAddress\<close> have no default.
\<close>

definition new_NumberField :: "obj \<Rightarrow> numberField" where
  "new_NumberField data =
     \<lparr> key = getProp data ''key'',
       tooltip = dflt JNull (getProp data ''tooltip''),
       templateAddress = getProp data ''templateAddress'',
       label = dflt JNull (getProp data ''label''),
       defaultValue = dflt JNull (getProp data ''defaultValue''),
       size' = dflt JNull (getProp data ''size''),
       cssClass = dflt JNull (getProp data ''cssClass''),
       role = dflt (JNum (Fin 0)) (getProp data ''role''),
       permission = dflt (JNum (Fin 0)) (getProp data ''permission''),
       allowDecimal = dflt (JBool False) (getProp data ''allowDecimal''),
       minVal = dflt JNull (getProp data ''minVal''),
       maxVal = dflt JNull (getProp data ''maxVal''),
       allowRelative = dflt (JBool True) (getProp data ''allowRelative''),
       showControls = dflt (JBool False) (getProp data ''showControls'') \<rparr>"

text \<open>
  The options object handed to the formula engine. A key the caller leaves out is
  \<open>None\<close>.
\<close>

record options =
  opt_defaultValue :: string
  computeExplanation :: "bool option"
  reference :: "jsval option"

text \<open>
  \<^verbatim>\<open>_getMinVal(actor)\<close> and \<^verbatim>\<open>_getMaxVal(actor)\<close>. The formula engine
  (\<^verbatim>\<open>ComputablePhrase.computeMessageStatic\<close>, not among the sources) is the parameter
  \<open>computeMessageStatic\<close>: from the phrase, the actor's property bag and the options to
  the \<^verbatim>\<open>result\<close> of what it returns. Modelled from the spec: the engine reads the
  property bag and hands back its result, so it is a function of its arguments.
\<close>

definition getMinVal ::
  "(string \<Rightarrow> number) \<Rightarrow> (jsval \<Rightarrow> 'bag \<Rightarrow> options \<Rightarrow> jsval) \<Rightarrow> numberField \<Rightarrow> 'bag \<Rightarrow> number" where
  "getMinVal str2num computeMessageStatic nf props =
     (if truthy (minVal nf) then
        (let m = Number str2num (minVal nf);
             m = (if isNaN m
                  then Number str2num
                         (computeMessageStatic (minVal nf) props
                            \<lparr> opt_defaultValue = ''0'', computeExplanation = None,
                              reference = Some (key nf) \<rparr>)
                  else m)
         in if isNaN m then NegInf else m)
      else NegInf)"

definition getMaxVal ::
  "(string \<Rightarrow> number) \<Rightarrow> (jsval \<Rightarrow> 'bag \<Rightarrow> options \<Rightarrow> jsval) \<Rightarrow> numberField \<Rightarrow> 'bag \<Rightarrow> number" where
  "getMaxVal str2num computeMessageStatic nf props =
     (if truthy (maxVal nf) then
        (let m = Number str2num (maxVal nf);
             m = (if isNaN m
                  then Number str2num
                         (computeMessageStatic (maxVal nf) props
                            \<lparr> opt_defaultValue = ''0'', computeExplanation = None,
                              reference = Some (key nf) \<rparr>)
                  else m)
         in if isNaN m then PosInf else m)
      else PosInf)"

text \<open>
  The Number that both functions read off the engine: the bound computed as a formula,
  with default value '0' and the component's key as reference.
\<close>

definition formula_bound ::
  "(string \<Rightarrow> number) \<Rightarrow> (jsval \<Rightarrow> 'bag \<Rightarrow> options \<Rightarrow> jsval) \<Rightarrow> numberField \<Rightarrow> 'bag \<Rightarrow> jsval
     \<Rightarrow> number" where
  "formula_bound str2num computeMessageStatic nf props v =
     Number str2num
       (computeMessageStatic v props
          \<lparr> opt_defaultValue = ''0'', computeExplanation = None, reference = Some (key nf) \<rparr>)"

text \<open>
  \<^verbatim>\<open>persistValue\<close>, the handler of the blur event inside \<^verbatim>\<open>_getElement\<close>.
  \<open>newText\<close> is the text of the visible input, \<open>oldValue\<close> the text of the hidden
  input that carries the stored value; \<open>fin_add\<close> is the sum of two finite doubles in
  \<^verbatim>\<open>Number(oldValue) + Number(newValue)\<close>. The result records what the handler puts into the
  visible input, the value it writes to the hidden input when it triggers a change
  (\<open>None\<close> when \<^verbatim>\<open>newValue !== oldValue\<close> is false and nothing is written), and
  the warnings it raises, in order.
\<close>

datatype warning =
  MustBeNumeric | MustBeInteger | MustBeGreater number | MustBeSmaller number

record persisted =
  shown :: jsval
  change :: "jsval option"
  warnings :: "warning list"

definition finish :: "string \<Rightarrow> jsval \<Rightarrow> warning list \<Rightarrow> persisted" where
  "finish oldValue newValue ws =
     \<lparr> shown = newValue,
       change = (if \<not> strict_eq newValue (JStr oldValue) then Some newValue else None),
       warnings = ws \<rparr>"

definition persistValue ::
  "(string \<Rightarrow> number) \<Rightarrow> (rat \<Rightarrow> rat \<Rightarrow> number) \<Rightarrow> (jsval \<Rightarrow> 'bag \<Rightarrow> options \<Rightarrow> jsval)
     \<Rightarrow> numberField \<Rightarrow> 'bag \<Rightarrow> string \<Rightarrow> string \<Rightarrow> persisted" where
  "persistValue str2num fin_add computeMessageStatic nf props newText oldValue =
     (if isNaN (Number str2num (JStr newText))
      then finish oldValue (JStr oldValue) [MustBeNumeric]
      else
        (let (v1, w1) =
               (if \<not> truthy (allowDecimal nf) \<and> \<not> isInteger (Number str2num (JStr newText))
                then (oldValue, [MustBeInteger]) else (newText, []));
             v2 = (if truthy (allowRelative nf) \<and> (startsWith v1 ''+'' \<or> startsWith v1 ''-'')
                   then JNum (num_add fin_add (Number str2num (JStr oldValue))
                                (Number str2num (JStr v1)))
                   else JStr v1);
             v3 = Number str2num v2;
             mn = getMinVal str2num computeMessageStatic nf props;
             (v4, w2) = (if num_lt v3 mn then (mn, [MustBeGreater mn]) else (v3, []));
             mx = getMaxVal str2num computeMessageStatic nf props;
             (v5, w3) = (if num_gt v4 mx then (mx, [MustBeSmaller mx]) else (v4, []))
         in finish oldValue (JNum v5) (w1 @ w2 @ w3)))"

text \<open>
  The value that \<^verbatim>\<open>persistValue\<close> works with once the input is accepted, and the two
  comparisons that follow it.
\<close>

definition entered ::
  "(string \<Rightarrow> number) \<Rightarrow> (rat \<Rightarrow> rat \<Rightarrow> number) \<Rightarrow> numberField \<Rightarrow> string \<Rightarrow> string \<Rightarrow> number" where
  "entered str2num fin_add nf newText oldValue =
     (if truthy (allowRelative nf) \<and> (startsWith newText ''+'' \<or> startsWith newText ''-'')
      then num_add fin_add (str2num oldValue) (str2num newText) else str2num newText)"

definition clamp :: "number \<Rightarrow> number \<Rightarrow> number \<Rightarrow> number" where
  "clamp mn mx v = (let a = (if num_lt v mn then mn else v) in if num_gt a mx then mx else a)"

text \<open>
  \<^verbatim>\<open>toJSON()\<close>. \<^verbatim>\<open>super.toJSON()\<close> (InputComponent.js is not among the
  sources) is the parameter \<open>super_toJSON\<close>. The object spread copies what it returns,
  and the properties written after the spread override.
\<close>

definition toJSON :: "(numberField \<Rightarrow> obj) \<Rightarrow> numberField \<Rightarrow> obj" where
  "toJSON super_toJSON x =
     (super_toJSON x)
       (''allowDecimal'' \<mapsto> allowDecimal x, ''minVal'' \<mapsto> minVal x, ''maxVal'' \<mapsto> maxVal x,
        ''allowRelative'' \<mapsto> allowRelative x, ''showControls'' \<mapsto> showControls x,
        ''type'' \<mapsto> JStr ''numberField'')"

text \<open>
  What the round trip needs of the base class: \<^verbatim>\<open>super.toJSON()\<close> writes each of the
  eight base fields of the descriptor under its own name.
\<close>

definition serializes_base :: "(numberField \<Rightarrow> obj) \<Rightarrow> numberField \<Rightarrow> bool" where
  "serializes_base super_toJSON x =
     (getProp (super_toJSON x) ''key'' = key x \<and>
      getProp (super_toJSON x) ''tooltip'' = tooltip x \<and>
      getProp (super_toJSON x) ''label'' = label x \<and>
      getProp (super_toJSON x) ''defaultValue'' = defaultValue x \<and>
      getProp (super_toJSON x) ''size'' = size' x \<and>
      getProp (super_toJSON x) ''cssClass'' = cssClass x \<and>
      getProp (super_toJSON x) ''role'' = role x \<and>
      getProp (super_toJSON x) ''permission'' = permission x)"

text \<open>
  Modelled from the spec: \<^verbatim>\<open>InputComponent.toJSON\<close>, which is not among the sources.
  The spec gives the base part of a component descriptor as key, label, defaultValue,
  size, cssClass, role and permission; tooltip is the ninth value the constructor above
  hands to the base class.
\<close>

definition InputComponent_toJSON :: "numberField \<Rightarrow> obj" where
  "InputComponent_toJSON x =
     [''key'' \<mapsto> key x, ''tooltip'' \<mapsto> tooltip x, ''label'' \<mapsto> label x,
      ''defaultValue'' \<mapsto> defaultValue x, ''size'' \<mapsto> size' x, ''cssClass'' \<mapsto> cssClass x,
      ''role'' \<mapsto> role x, ''permission'' \<mapsto> permission x]"

definition fromJSON :: "obj \<Rightarrow> jsval \<Rightarrow> numberField" where
  "fromJSON json addr =
     new_NumberField
       [''key'' \<mapsto> getProp json ''key'', ''tooltip'' \<mapsto> getProp json ''tooltip'',
        ''templateAddress'' \<mapsto> addr,
        ''allowDecimal'' \<mapsto> getProp json ''allowDecimal'', ''minVal'' \<mapsto> getProp json ''minVal'',
        ''maxVal'' \<mapsto> getProp json ''maxVal'', ''allowRelative'' \<mapsto> getProp json ''allowRelative'',
        ''showControls'' \<mapsto> getProp json ''showControls'', ''label'' \<mapsto> getProp json ''label'',
        ''defaultValue'' \<mapsto> getProp json ''defaultValue'', ''size'' \<mapsto> getProp json ''size'',
        ''cssClass'' \<mapsto> getProp json ''cssClass'', ''role'' \<mapsto> getProp json ''role'',
        ''permission'' \<mapsto> getProp json ''permission'']"

text \<open>
  \<^verbatim>\<open>extractConfig(html)\<close>. The submitted form answers two questions about a selector:
  the value of the element (\<^verbatim>\<open>html.find(sel).val()\<close>) and whether it is checked
  (\<^verbatim>\<open>html.find(sel).is(':checked')\<close>). \<^verbatim>\<open>super.extractConfig\<close> (not among the
  sources) is the parameter \<open>super_extractConfig\<close>; it may throw, and what it throws
  passes through.
\<close>

record form =
  val :: "string \<Rightarrow> jsval"
  checked :: "string \<Rightarrow> bool"

definition extractConfig :: "(form \<Rightarrow> error + obj) \<Rightarrow> form \<Rightarrow> error + obj" where
  "extractConfig super_extractConfig html =
     (case super_extractConfig html of
        Inl e \<Rightarrow> Inl e
      | Inr fieldData \<Rightarrow>
          if \<not> truthy (getProp fieldData ''key'')
          then Inl (Error ''Component key is mandatory for number fields'')
          else Inr (fieldData
                 (''label'' \<mapsto> val html ''#numberFieldLabel'',
                  ''defaultValue'' \<mapsto> val html ''#numberFieldValue'',
                  ''size'' \<mapsto> val html ''#numberFieldSize'',
                  ''allowDecimal'' \<mapsto> JBool (checked html ''#numberFieldAllowDecimal''),
                  ''minVal'' \<mapsto> val html ''#numberFieldMinVal'',
                  ''maxVal'' \<mapsto> val html ''#numberFieldMaxVal'',
                  ''allowRelative'' \<mapsto> JBool (checked html ''#numberFieldAllowRelative''),
                  ''showControls'' \<mapsto> JBool (checked html ''#numberFieldShowControls''))))"

section \<open>Initiative (the system's entry module)\<close>

text \<open>
  The part of the host's global state that the initiative functions read and write: the
  world setting \<^verbatim>\<open>initFormula\<close> (registered with type String), the core setting
  \<^verbatim>\<open>rollMode\<close>, \<^verbatim>\<open>CONFIG.Combat.initiative.formula\<close>,
  \<^verbatim>\<open>game.system.data.initiative\<close>, and the lines written by \<^verbatim>\<open>console.debug\<close>.
\<close>

record world =
  initFormula :: string
  core_rollMode :: string
  config_formula :: string
  system_initiative :: string
  console :: "string list"

text \<open>\<^verbatim>\<open>a || b\<close> on strings: the empty string is the only falsy one.\<close>

definition or_else :: "string \<Rightarrow> string \<Rightarrow> string" where
  "or_else a b = (if a \<noteq> [] then a else b)"

definition getInitiativeFormula :: "world \<Rightarrow> world \<times> string" where
  "getInitiativeFormula w =
     (let initF = initFormula w;
          formula = or_else initF ''1d20'';
          w1 = w\<lparr> config_formula := formula \<rparr>;
          w2 = w1\<lparr> console := console w1 @ [''Initiative formula : '' @ formula] \<rparr>
      in (w2, or_else (config_formula w2) (system_initiative w2)))"

text \<open>
  Modelled from the spec: the class Formula (formulas/Formula.js is not among the
  sources) keeps the raw formula it is built from, an immutable string; the callers
  read it as \<^verbatim>\<open>formula.raw\<close>.
\<close>

record formula =
  raw :: string

text \<open>
  \<^verbatim>\<open>getInitiativeRoll(rawFormula)\<close>. \<^verbatim>\<open>rawFormula\<close> is a string or \<^verbatim>\<open>null\<close>; the
  operator \<^verbatim>\<open>||\<close> calls \<^verbatim>\<open>_getInitiativeFormula\<close> only when it is falsy.
\<close>

definition getInitiativeRoll :: "world \<Rightarrow> string option \<Rightarrow> world \<times> formula" where
  "getInitiativeRoll w rawFormula =
     (case rawFormula of
        Some r \<Rightarrow>
          if r \<noteq> [] then (w, \<lparr> raw = r \<rparr>)
          else (let (w', f) = getInitiativeFormula w in (w', \<lparr> raw = f \<rparr>))
      | None \<Rightarrow> (let (w', f) = getInitiativeFormula w in (w', \<lparr> raw = f \<rparr>)))"

text \<open>
  A combatant: its id, the property bag of its actor
  (\<^verbatim>\<open>actor.data.data.props\<close>), the flags and the name the initiative code reads, and
  the fields of its document (among them \<^verbatim>\<open>initiative\<close>).
\<close>

record 'bag combatant =
  cid :: string
  actor_props :: 'bag
  isOwner :: bool
  hidden :: bool
  cname :: string
  doc :: obj

text \<open>
  The host's \<^verbatim>\<open>Document.update(changes)\<close>, as far as the claims need it: the fields
  named in the changes take the new values, in order.
\<close>

definition update :: "'bag combatant \<Rightarrow> (string \<times> jsval) list \<Rightarrow> 'bag combatant" where
  "update c changes = c\<lparr> doc := fold (\<lambda>(k, v) m. m(k \<mapsto> v)) changes (doc c) \<rparr>"

text \<open>
  \<^verbatim>\<open>Combatant.prototype.rollInitiative\<close>. \<^verbatim>\<open>formula.compute\<close> (Formula.js is not among
  the sources) is the parameter \<open>formula_compute\<close>, from the raw formula, the property
  bag and the options to \<^verbatim>\<open>formula.result\<close>. The function returns the new global
  state and the changes it hands to \<^verbatim>\<open>this.update\<close>.
\<close>

definition Combatant_rollInitiative ::
  "(string \<Rightarrow> 'bag \<Rightarrow> options \<Rightarrow> jsval) \<Rightarrow> world \<Rightarrow> 'bag combatant \<Rightarrow> string option
     \<Rightarrow> world \<times> (string \<times> jsval) list" where
  "Combatant_rollInitiative formula_compute w c rawFormula =
     (let (w', formula) = getInitiativeRoll w rawFormula;
          result = formula_compute (raw formula) (actor_props c)
                     \<lparr> opt_defaultValue = ''0'', computeExplanation = Some True,
                       reference = None \<rparr>
      in (w', [(''initiative'', result)]))"

text \<open>
  \<^verbatim>\<open>Combat.prototype.rollInitiative\<close>. The two markers are the string literals the
  function puts around \<^verbatim>\<open>formula.raw\<close>.
\<close>

definition open_marker :: string where
  "open_marker = ''${''"

definition close_marker :: string where
  "close_marker = ''}$''"

definition phrase_of :: "formula \<Rightarrow> string" where
  "phrase_of f = open_marker @ raw f @ close_marker"

datatype ids = OneId string | ManyIds "string list"

definition ids_list :: "ids \<Rightarrow> string list" where
  "ids_list i = (case i of OneId s \<Rightarrow> [s] | ManyIds l \<Rightarrow> l)"

record 'bag combat =
  combatants :: "(string \<times> 'bag combatant) list"
  current :: "string option"
  turns :: "string list"

text \<open>
  One entry of \<^verbatim>\<open>updates\<close>, and what the function settles of one chat message: the
  phrase it was computed from, the alias of the speaker, the roll mode, and whether the
  sound was kept (it is set to \<^verbatim>\<open>null\<close> for every message but the first).
\<close>

record init_update =
  u_id :: string
  u_initiative :: jsval

record chat =
  m_phrase :: string
  m_alias :: string
  m_rollMode :: string
  m_sound :: bool

text \<open>
  The loop over \<^verbatim>\<open>ids.entries()\<close>. For a combatant that is missing or not owned the
  source executes \<^verbatim>\<open>return results\<close>; no \<^verbatim>\<open>results\<close> is declared, so the statement
  throws a ReferenceError.
\<close>

fun roll_each ::
  "(string \<Rightarrow> 'bag \<Rightarrow> options \<Rightarrow> jsval) \<Rightarrow> 'bag combat \<Rightarrow> string option \<Rightarrow> string \<Rightarrow> nat
     \<Rightarrow> string list \<Rightarrow> world \<Rightarrow> init_update list \<Rightarrow> chat list
     \<Rightarrow> world \<times> (error + init_update list \<times> chat list)" where
  "roll_each phrase_compute cb rawFormula rollMode i [] w updates messages =
     (w, Inr (updates, messages))"
| "roll_each phrase_compute cb rawFormula rollMode i (cur # rest) w updates messages =
     (case map_of (combatants cb) cur of
        None \<Rightarrow> (w, Inl (ReferenceError ''results is not defined''))
      | Some c \<Rightarrow>
          if \<not> isOwner c then (w, Inl (ReferenceError ''results is not defined''))
          else
            (let (w', formula) = getInitiativeRoll w rawFormula;
                 phrase = phrase_of formula;
                 result = phrase_compute phrase (actor_props c)
                            \<lparr> opt_defaultValue = ''0'', computeExplanation = Some True,
                              reference = None \<rparr>;
                 chatData =
                   \<lparr> m_phrase = phrase, m_alias = cname c,
                     m_rollMode =
                       (if hidden c \<and> rollMode \<in> set [''roll'', ''publicroll'']
                        then ''gmroll'' else rollMode),
                     m_sound = \<not> (0 < i) \<rparr>
             in roll_each phrase_compute cb rawFormula rollMode (Suc i) rest w'
                  (updates @ [\<lparr> u_id = cur, u_initiative = result \<rparr>])
                  (messages @ [chatData])))"

text \<open>
  What the function hands to the host after the loop: the updates of the combatants, the
  new turn index when the turn is kept on the current combatant (\<^verbatim>\<open>findIndex\<close> gives
  \<open>-1\<close> when the id is not among the turns), and the chat messages. With no update
  the function returns before any of the three.
\<close>

record outcome =
  embedded_updates :: "init_update list"
  turn_update :: "int option"
  created_messages :: "chat list"

fun findIndex :: "string list \<Rightarrow> string \<Rightarrow> int" where
  "findIndex [] x = -1"
| "findIndex (t # ts) x =
     (if t = x then 0 else (let j = findIndex ts x in if j < 0 then -1 else j + 1))"

definition Combat_rollInitiative ::
  "(string \<Rightarrow> 'bag \<Rightarrow> options \<Rightarrow> jsval) \<Rightarrow> world \<Rightarrow> 'bag combat \<Rightarrow> ids \<Rightarrow> string option
     \<Rightarrow> bool \<Rightarrow> string option \<Rightarrow> world \<times> (error + outcome)" where
  "Combat_rollInitiative phrase_compute w cb idsArg rawFormula updateTurn msgRollMode =
     (let idl = ids_list idsArg;
          currentId = current cb;
          rollMode = or_else (case msgRollMode of None \<Rightarrow> [] | Some m \<Rightarrow> m) (core_rollMode w)
      in case roll_each phrase_compute cb rawFormula rollMode 0 idl w [] [] of
           (w', Inl e) \<Rightarrow> (w', Inl e)
         | (w', Inr (updates, messages)) \<Rightarrow>
             if updates = [] then
               (w', Inr \<lparr> embedded_updates = [], turn_update = None, created_messages = [] \<rparr>)
             else
               (w', Inr \<lparr> embedded_updates = updates,
                         turn_update =
                           (case currentId of
                              Some cur \<Rightarrow>
                                if updateTurn \<and> cur \<noteq> [] then Some (findIndex (turns cb) cur)
                                else None
                            | None \<Rightarrow> None),
                         created_messages = messages \<rparr>))"

text \<open>A combatant the loop of \<^verbatim>\<open>Combat.rollInitiative\<close> accepts: present and owned.\<close>

definition owned :: "'bag combat \<Rightarrow> string \<Rightarrow> bool" where
  "owned cb x = (case map_of (combatants cb) x of None \<Rightarrow> False | Some c \<Rightarrow> isOwner c)"

definition step_update ::
  "(string \<Rightarrow> 'bag \<Rightarrow> options \<Rightarrow> jsval) \<Rightarrow> 'bag combat \<Rightarrow> string \<Rightarrow> string \<Rightarrow> init_update" where
  "step_update pc cb f x =
     \<lparr> u_id = x, u_initiative =
         pc (open_marker @ f @ close_marker) (actor_props (the (map_of (combatants cb) x)))
            \<lparr> opt_defaultValue = ''0'', computeExplanation = Some True, reference = None \<rparr> \<rparr>"

section \<open>The formula engine\<close>

text \<open>
  The engine (formulas/ComputablePhrase.js, formulas/Formula.js) is not among the
  sources. This section models it from the spec: the data model of its section 3, the
  components 4.1 to 4.4 and the grammar of section 6. What the spec leaves to
  collaborators or does not fix is a parameter: the grammar of one expression, the dice
  evaluator and its randomness source, how a value is turned into text, and which
  values count as numbers.
\<close>

text \<open>
  Modelled from the spec: the property bag (section 3), a nesting of scalars, arrays and
  mappings from string keys. A computed value is a value of the same kind.
\<close>

datatype pvalue = VNum rat | VStr string | VArr "pvalue list" | VObj "(string \<times> pvalue) list"

text \<open>
  Modelled from the spec: the computable expression tree (section 3), with the node
  variants the spec lists: literal, property reference (a path whose segments are keys
  or bracketed sub-expressions, with an optional fallback), dice roll, unary and binary
  operator, call of a built-in, and table lookup.
\<close>

datatype binop = Add | Sub | Mul | Div | Eq | Neq | Lt | Le | Gt | Ge

datatype modifier = KeepHighest nat | KeepLowest nat | DropHighest nat | DropLowest nat | Reroll nat

datatype expr =
    Lit pvalue
  | Ref "seg list" "expr option"
  | Dice nat nat "modifier list"
  | Neg expr
  | Bin binop expr expr
  | Call string "expr list"
  | Table expr "(rat \<times> pvalue) list"
and seg = Key string | Dyn expr

text \<open>
  Modelled from the spec: the segments of a formula (4.2). The scanner cuts the string
  into literal text and marker-delimited spans; a span becomes an expression, or, when
  its text does not parse, a malformed span that is put out as it was written.
\<close>

datatype piece = Text string | Span string

datatype segment = Literal string | Expression expr | Malformed string

text \<open>
  Modelled from the spec: the explanation as a structured trace (section 3), one entry
  for every dice roll, every resolved reference and every malformed span, in evaluation
  order.
\<close>

datatype entry = DiceNote nat nat "nat list" rat | RefNote "string list" pvalue | ErrorNote string

text \<open>
  Modelled from the spec: the search for a marker in the scanner of 4.2.
  \<open>split_at m s\<close> cuts \<open>s\<close> at the first occurrence of the marker \<open>m\<close>;
  \<open>contains s m\<close> says that there is one.
\<close>

fun split_at :: "string \<Rightarrow> string \<Rightarrow> (string \<times> string) option" where
  "split_at m [] = None"
| "split_at m (c # cs) =
     (if startsWith (c # cs) m then Some ([], drop (length m) (c # cs))
      else (case split_at m cs of None \<Rightarrow> None | Some (pre, post) \<Rightarrow> Some (c # pre, post)))"

definition contains :: "string \<Rightarrow> string \<Rightarrow> bool" where
  "contains s m = (split_at m s \<noteq> None)"

lemma split_at_length:
  "split_at m s = Some (pre, post) \<Longrightarrow> m \<noteq> [] \<Longrightarrow> length post < length s"
proof (induction s arbitrary: pre post)
  case Nil
  then show ?case by simp
next
  case (Cons c cs)
  then show ?case
    by (cases m) (auto simp: startsWith_def split: if_splits option.splits)
qed

text \<open>
  Modelled from the spec: the scanner of 4.2. An open marker with no close marker
  after it leaves the rest of the string literal text.
\<close>

function scan :: "string \<Rightarrow> piece list" where
  "scan s =
     (case split_at open_marker s of
        None \<Rightarrow> [Text s]
      | Some (pre, rest) \<Rightarrow>
          (case split_at close_marker rest of
             None \<Rightarrow> [Text s]
           | Some (body, post) \<Rightarrow> Text pre # Span body # scan post))"
  by pat_completeness auto
termination
proof (relation "measure length")
  show "wf (measure length)" by simp
next
  fix s x2 pre rest y body post
  assume a: "split_at open_marker s = Some x2" "(pre, rest) = x2"
    "split_at close_marker rest = Some y" "(body, post) = y"
  have "length rest < length s"
    using a split_at_length[of open_marker s pre rest] by (auto simp: open_marker_def)
  moreover have "length post < length rest"
    using a split_at_length[of close_marker rest body post] by (auto simp: close_marker_def)
  ultimately show "(post, s) \<in> measure length" by simp
qed

declare scan.simps [simp del]

text \<open>
  Modelled from the spec: a formula found as the value of a property (4.4) is a string
  in which the scanner finds an expression span.
\<close>

definition is_span :: "piece \<Rightarrow> bool" where
  "is_span p = (case p of Span b \<Rightarrow> True | Text t \<Rightarrow> False)"

definition has_formula :: "string \<Rightarrow> bool" where
  "has_formula s = list_ex is_span (scan s)"

text \<open>
  Modelled from the spec: the collaborators of the engine (sections 2 and 6), for what
  the spec does not fix. They are the parser of one expression (\<open>None\<close> for text
  that does not parse), the dice evaluator over a randomness source of type \<open>'r\<close>
  (from count, die size, modifiers and source to breakdown, result and the source that
  is left), the text of a value, and the number a value stands for, if any.
\<close>

record 'r env =
  parse_expr :: "string \<Rightarrow> expr option"
  roll :: "nat \<Rightarrow> nat \<Rightarrow> modifier list \<Rightarrow> 'r \<Rightarrow> (nat list \<times> rat) \<times> 'r"
  stringify :: "pvalue \<Rightarrow> string"
  numeric :: "pvalue \<Rightarrow> rat option"

text \<open>Modelled from the spec: \<^verbatim>\<open>parse\<close> of 4.2, from the raw formula to its segments.\<close>

definition parse :: "'r env \<Rightarrow> string \<Rightarrow> segment list" where
  "parse E rawFormula =
     map (\<lambda>p. case p of
                 Text t \<Rightarrow> Literal t
               | Span body \<Rightarrow>
                   (case parse_expr E body of
                      Some e \<Rightarrow> Expression e
                    | None \<Rightarrow> Malformed (open_marker @ body @ close_marker)))
         (scan rawFormula)"

text \<open>
  Modelled from the spec: the property resolver of 4.1. A key selects in a mapping, a
  key of decimal digits selects by index in an array; a missing step gives \<open>None\<close>,
  which the engine replaces by the default value.
\<close>

definition is_digit :: "char \<Rightarrow> bool" where
  "is_digit c = (c \<in> set ''0123456789'')"

definition digits_val :: "string \<Rightarrow> nat" where
  "digits_val ds = foldl (\<lambda>a c. 10 * a + (of_char c - 48)) 0 ds"

definition array_index :: "string \<Rightarrow> nat option" where
  "array_index k = (if k \<noteq> [] \<and> list_all is_digit k then Some (digits_val k) else None)"

fun lookup_key :: "pvalue \<Rightarrow> string \<Rightarrow> pvalue option" where
  "lookup_key (VObj kvs) k = map_of kvs k"
| "lookup_key (VArr xs) k =
     (case array_index k of
        Some i \<Rightarrow> if i < length xs then Some (xs ! i) else None
      | None \<Rightarrow> None)"
| "lookup_key _ k = None"

fun resolve :: "pvalue \<Rightarrow> string list \<Rightarrow> pvalue option" where
  "resolve v [] = Some v"
| "resolve v (k # ks) = (case lookup_key v k of None \<Rightarrow> None | Some w \<Rightarrow> resolve w ks)"

text \<open>
  Modelled from the spec: the table lookup of 4.1 over a list of rows sorted by
  threshold: the value of the greatest threshold that is at most the key, \<open>None\<close>
  when the key is below all thresholds.
\<close>

fun table_lookup :: "(rat \<times> pvalue) list \<Rightarrow> rat \<Rightarrow> pvalue option" where
  "table_lookup [] k = None"
| "table_lookup ((t, v) # rows) k =
     (if t \<le> k then (case table_lookup rows k of None \<Rightarrow> Some v | Some w \<Rightarrow> Some w)
      else None)"

text \<open>
  Modelled from the spec: the operators of section 6. A comparison gives its truth value
  as text. An arithmetic operator needs two numbers and a non-zero divisor; \<open>None\<close>
  is the failure that the engine replaces by the default value.
\<close>

definition bool_text :: "bool \<Rightarrow> pvalue" where
  "bool_text c = VStr (if c then ''true'' else ''false'')"

definition arith :: "'r env \<Rightarrow> binop \<Rightarrow> pvalue \<Rightarrow> pvalue \<Rightarrow> pvalue option" where
  "arith E bop a b =
     (case (numeric E a, numeric E b) of
        (Some x, Some y) \<Rightarrow>
          (case bop of
             Add \<Rightarrow> Some (VNum (x + y))
           | Sub \<Rightarrow> Some (VNum (x - y))
           | Mul \<Rightarrow> Some (VNum (x * y))
           | Div \<Rightarrow> if y = 0 then None else Some (VNum (x / y))
           | Eq \<Rightarrow> Some (bool_text (x = y))
           | Neq \<Rightarrow> Some (bool_text (x \<noteq> y))
           | Lt \<Rightarrow> Some (bool_text (x < y))
           | Le \<Rightarrow> Some (bool_text (x \<le> y))
           | Gt \<Rightarrow> Some (bool_text (x > y))
           | Ge \<Rightarrow> Some (bool_text (x \<ge> y)))
      | _ \<Rightarrow>
          (case bop of
             Eq \<Rightarrow> Some (bool_text (a = b))
           | Neq \<Rightarrow> Some (bool_text (a \<noteq> b))
           | _ \<Rightarrow> None))"

text \<open>
  Modelled from the spec: the fixed table of built-ins of 4.4 (min, max, round, floor,
  ceil, abs, sign, if-then-else). The numeric ones need numbers for all arguments; a
  condition holds when it is the text 'true' or a number other than zero.
\<close>

fun those_opt :: "'a option list \<Rightarrow> 'a list option" where
  "those_opt [] = Some []"
| "those_opt (None # xs) = None"
| "those_opt (Some x # xs) = (case those_opt xs of None \<Rightarrow> None | Some ys \<Rightarrow> Some (x # ys))"

definition holds :: "'r env \<Rightarrow> pvalue \<Rightarrow> bool" where
  "holds E c = (c = VStr ''true'' \<or> (case numeric E c of Some r \<Rightarrow> r \<noteq> 0 | None \<Rightarrow> False))"

definition builtin :: "'r env \<Rightarrow> string \<Rightarrow> pvalue list \<Rightarrow> pvalue option" where
  "builtin E f vs =
     (if f = ''if'' then
        (case vs of [c, t, e] \<Rightarrow> Some (if holds E c then t else e) | _ \<Rightarrow> None)
      else
        (case those_opt (map (numeric E) vs) of
           None \<Rightarrow> None
         | Some rs \<Rightarrow>
             if f = ''min'' then (case rs of [] \<Rightarrow> None | r # rest \<Rightarrow> Some (VNum (fold min rest r)))
             else if f = ''max'' then (case rs of [] \<Rightarrow> None | r # rest \<Rightarrow> Some (VNum (fold max rest r)))
             else if f = ''round'' then (case rs of [r] \<Rightarrow> Some (VNum (of_int \<lfloor>r + 1 / 2\<rfloor>)) | _ \<Rightarrow> None)
             else if f = ''floor'' then (case rs of [r] \<Rightarrow> Some (VNum (of_int \<lfloor>r\<rfloor>)) | _ \<Rightarrow> None)
             else if f = ''ceil'' then (case rs of [r] \<Rightarrow> Some (VNum (of_int \<lceil>r\<rceil>)) | _ \<Rightarrow> None)
             else if f = ''abs'' then (case rs of [r] \<Rightarrow> Some (VNum \<bar>r\<bar>) | _ \<Rightarrow> None)
             else if f = ''sign'' then (case rs of [r] \<Rightarrow> Some (VNum (sgn r)) | _ \<Rightarrow> None)
             else None))"

text \<open>
  Modelled from the spec: the failure policy of 4.4, best-effort substitution. Where an
  operation fails, the configured default value stands in for its result.
\<close>

definition or_default :: "options \<Rightarrow> pvalue option \<Rightarrow> pvalue" where
  "or_default opts r = (case r of Some v \<Rightarrow> v | None \<Rightarrow> VStr (opt_defaultValue opts))"

text \<open>
  Modelled from the spec: the context of one computation (engine, property bag and
  options, all three only read), and what one evaluation step hands back: its value,
  the trace it adds to the explanation, the randomness source that is left, and how
  many levels of nested formulas it entered.
\<close>

record 'r ctx =
  c_engine :: "'r env"
  c_bag :: pvalue
  c_opts :: options

record ('a, 'r) run =
  out :: 'a
  trace :: "entry list"
  rng :: 'r
  level :: nat

text \<open>
  Modelled from the spec: the evaluation of 4.4, depth first and left to right. \<open>d\<close>
  is the recursion-depth guard, a hard counter: a referenced property whose value is
  itself a formula is computed one level down, and at depth \<open>0\<close> the stored value is
  used as it is. The spec names this guard as the only protection against unbounded
  work; the option \<^verbatim>\<open>reference\<close> is carried in the options and opens no second path.
\<close>

function
  eval :: "'r ctx \<Rightarrow> nat \<Rightarrow> expr \<Rightarrow> 'r \<Rightarrow> (pvalue, 'r) run"
and evals :: "'r ctx \<Rightarrow> nat \<Rightarrow> expr list \<Rightarrow> 'r \<Rightarrow> (pvalue list, 'r) run"
and eval_path :: "'r ctx \<Rightarrow> nat \<Rightarrow> seg list \<Rightarrow> 'r \<Rightarrow> (string list, 'r) run"
and eval_segments :: "'r ctx \<Rightarrow> nat \<Rightarrow> segment list \<Rightarrow> 'r \<Rightarrow> (string, 'r) run"
where
  "eval C d (Lit v) g = \<lparr> out = v, trace = [], rng = g, level = 0 \<rparr>"
| "eval C d (Dice n m mods) g =
     (case roll (c_engine C) n m mods g of
        ((faces, r), g') \<Rightarrow>
          \<lparr> out = VNum r, trace = [DiceNote n m faces r], rng = g', level = 0 \<rparr>)"
| "eval C d (Neg e) g =
     (let a = eval C d e g
      in a\<lparr> out := or_default (c_opts C)
                     (case numeric (c_engine C) (out a) of
                        Some r \<Rightarrow> Some (VNum (- r))
                      | None \<Rightarrow> None) \<rparr>)"
| "eval C d (Bin bop e1 e2) g =
     (let a = eval C d e1 g;
          b = eval C d e2 (rng a)
      in \<lparr> out = or_default (c_opts C) (arith (c_engine C) bop (out a) (out b)),
           trace = trace a @ trace b, rng = rng b, level = max (level a) (level b) \<rparr>)"
| "eval C d (Call f args) g =
     (let a = evals C d args g
      in \<lparr> out = or_default (c_opts C) (builtin (c_engine C) f (out a)),
           trace = trace a, rng = rng a, level = level a \<rparr>)"
| "eval C d (Table k rows) g =
     (let a = eval C d k g
      in a\<lparr> out := or_default (c_opts C)
                     (case numeric (c_engine C) (out a) of
                        Some r \<Rightarrow> table_lookup rows r
                      | None \<Rightarrow> None) \<rparr>)"
| "eval C d (Ref path fallback) g =
     (let p = eval_path C d path g;
          noted = (\<lambda>v. trace p @ [RefNote (out p) v])
      in case resolve (c_bag C) (out p) of
           None \<Rightarrow>
             (case fallback of
                None \<Rightarrow>
                  \<lparr> out = VStr (opt_defaultValue (c_opts C)),
                    trace = noted (VStr (opt_defaultValue (c_opts C))),
                    rng = rng p, level = level p \<rparr>
              | Some e \<Rightarrow>
                  (let a = eval C d e (rng p)
                   in \<lparr> out = out a, trace = noted (out a) @ trace a, rng = rng a,
                        level = max (level p) (level a) \<rparr>))
         | Some v \<Rightarrow>
             (case v of
                VStr s \<Rightarrow>
                  if has_formula s then
                    (case d of
                       0 \<Rightarrow> \<lparr> out = v, trace = noted v, rng = rng p, level = level p \<rparr>
                     | Suc d' \<Rightarrow>
                         (let n = eval_segments C d' (parse (c_engine C) s) (rng p)
                          in \<lparr> out = VStr (out n), trace = noted (VStr (out n)) @ trace n,
                               rng = rng n, level = max (level p) (Suc (level n)) \<rparr>))
                  else \<lparr> out = v, trace = noted v, rng = rng p, level = level p \<rparr>
              | _ \<Rightarrow> \<lparr> out = v, trace = noted v, rng = rng p, level = level p \<rparr>))"
| "evals C d [] g = \<lparr> out = [], trace = [], rng = g, level = 0 \<rparr>"
| "evals C d (e # es) g =
     (let a = eval C d e g;
          b = evals C d es (rng a)
      in \<lparr> out = out a # out b, trace = trace a @ trace b, rng = rng b,
           level = max (level a) (level b) \<rparr>)"
| "eval_path C d [] g = \<lparr> out = [], trace = [], rng = g, level = 0 \<rparr>"
| "eval_path C d (Key k # ps) g =
     (let b = eval_path C d ps g in b\<lparr> out := k # out b \<rparr>)"
| "eval_path C d (Dyn e # ps) g =
     (let a = eval C d e g;
          b = eval_path C d ps (rng a)
      in \<lparr> out = stringify (c_engine C) (out a) # out b, trace = trace a @ trace b,
           rng = rng b, level = max (level a) (level b) \<rparr>)"
| "eval_segments C d [] g = \<lparr> out = [], trace = [], rng = g, level = 0 \<rparr>"
| "eval_segments C d (Literal t # rest) g =
     (let b = eval_segments C d rest g in b\<lparr> out := t @ out b \<rparr>)"
| "eval_segments C d (Malformed t # rest) g =
     (let b = eval_segments C d rest g
      in b\<lparr> out := t @ out b, trace := ErrorNote t # trace b \<rparr>)"
| "eval_segments C d (Expression e # rest) g =
     (let a = eval C d e g;
          b = eval_segments C d rest (rng a)
      in \<lparr> out = stringify (c_engine C) (out a) @ out b, trace = trace a @ trace b,
           rng = rng b, level = max (level a) (level b) \<rparr>)"
  by pat_completeness auto
termination
  by (relation "inv_image (less_than <*lex*> less_than <*lex*> less_than)
        (case_sum
           (case_sum (\<lambda>(C, d, e, g). (d, 0, size e)) (\<lambda>(C, d, es, g). (d, 0, size_list size es)))
           (case_sum (\<lambda>(C, d, ps, g). (d, 0, size_list size ps)) (\<lambda>(C, d, ss, g). (d, Suc 0, length ss))))")
     auto

text \<open>
  Modelled from the spec: the recursion bound. The spec asks for a fixed small depth
  and names 10.
\<close>

definition recursion_bound :: nat where
  "recursion_bound = 10"

text \<open>
  Modelled from the spec: \<^verbatim>\<open>compute(rawFormula, propertyBag, options)\<close> of 4.4 and its
  result (section 3). The result is the literal text and the text of the expression
  results in their order; the explanation is present when it was requested. The
  function also returns the randomness source that is left.
\<close>

record comp_result =
  result :: string
  explanation :: "entry list option"

definition compute ::
  "'r env \<Rightarrow> string \<Rightarrow> pvalue \<Rightarrow> options \<Rightarrow> 'r \<Rightarrow> comp_result \<times> 'r" where
  "compute E rawFormula bag opts g =
     (let r = eval_segments \<lparr> c_engine = E, c_bag = bag, c_opts = opts \<rparr> recursion_bound
                (parse E rawFormula) g
      in (\<lparr> result = out r,
            explanation = (if computeExplanation opts = Some True then Some (trace r) else None) \<rparr>,
          rng r))"

text \<open>
  The deepest level of nested formulas that one call of \<open>compute\<close> enters, read off
  the same evaluation.
\<close>

definition nesting :: "'r env \<Rightarrow> string \<Rightarrow> pvalue \<Rightarrow> options \<Rightarrow> 'r \<Rightarrow> nat" where
  "nesting E rawFormula bag opts g =
     level (eval_segments \<lparr> c_engine = E, c_bag = bag, c_opts = opts \<rparr> recursion_bound
              (parse E rawFormula) g)"

text \<open>
  The operations that can fail, and how. Unary minus, the arithmetic operators, the
  ordering comparisons and the numeric built-ins need numbers; a division needs a divisor
  other than zero; a table lookup needs a key that is not below every threshold; a call
  needs the name of a built-in and as many arguments as it takes; a reference without a
  fallback needs a path that the property bag has. \<open>failure_of C d e g\<close> is the failure
  of the operation at the root of \<open>e\<close>, once its operands are evaluated, when \<open>e\<close> is
  evaluated at depth \<open>d\<close> from the randomness source \<open>g\<close>; it is \<open>None\<close> when that
  operation succeeds.
\<close>

datatype failure = DivisionByZero | NonNumericOperand | OutOfRange | BadCall | Unresolved

fun failure_of :: "'r ctx \<Rightarrow> nat \<Rightarrow> expr \<Rightarrow> 'r \<Rightarrow> failure option" where
  "failure_of C d (Neg e) g =
     (if numeric (c_engine C) (out (eval C d e g)) = None then Some NonNumericOperand else None)"
| "failure_of C d (Bin bop e1 e2) g =
     (let a = eval C d e1 g;
          b = eval C d e2 (rng a);
          x = numeric (c_engine C) (out a);
          y = numeric (c_engine C) (out b)
      in if bop = Eq \<or> bop = Neq then None
         else if x = None \<or> y = None then Some NonNumericOperand
         else if bop = Div \<and> y = Some 0 then Some DivisionByZero
         else None)"
| "failure_of C d (Call f args) g =
     (let vs = out (evals C d args g)
      in if f \<noteq> ''if'' \<and> list_ex (\<lambda>v. numeric (c_engine C) v = None) vs
         then Some NonNumericOperand
         else if builtin (c_engine C) f vs = None then Some BadCall
         else None)"
| "failure_of C d (Table k rows) g =
     (case numeric (c_engine C) (out (eval C d k g)) of
        None \<Rightarrow> Some NonNumericOperand
      | Some r \<Rightarrow> if list_all (\<lambda>(t, v). r < t) rows then Some OutOfRange else None)"
| "failure_of C d (Ref path None) g =
     (if resolve (c_bag C) (out (eval_path C d path g)) = None then Some Unresolved else None)"
| "failure_of C d e g = None"

definition fails :: "'r ctx \<Rightarrow> nat \<Rightarrow> expr \<Rightarrow> 'r \<Rightarrow> bool" where
  "fails C d e g = (failure_of C d e g \<noteq> None)"

text \<open>
  An expression with one hole, to speak of an operation anywhere inside an expression:
  under a unary minus, in either operand of a binary operator, among the arguments of a
  call, in the key of a table lookup, in the fallback of a reference, or in a bracketed
  segment of its path. \<open>plug K f\<close> is the expression with \<open>f\<close> in the hole of \<open>K\<close>.
\<close>

datatype ectx =
    Hole
  | InNeg ectx
  | InBinL binop ectx expr
  | InBinR binop expr ectx
  | InCall string "expr list" ectx "expr list"
  | InTable ectx "(rat \<times> pvalue) list"
  | InFallback "seg list" ectx
  | InPath "seg list" ectx "seg list" "expr option"

fun plug :: "ectx \<Rightarrow> expr \<Rightarrow> expr" where
  "plug Hole f = f"
| "plug (InNeg K) f = Neg (plug K f)"
| "plug (InBinL bop K e2) f = Bin bop (plug K f) e2"
| "plug (InBinR bop e1 K) f = Bin bop e1 (plug K f)"
| "plug (InCall fn pre K post) f = Call fn (pre @ plug K f # post)"
| "plug (InTable K rows) f = Table (plug K f) rows"
| "plug (InFallback path K) f = Ref path (Some (plug K f))"
| "plug (InPath pre K post fb) f = Ref (pre @ Dyn (plug K f) # post) fb"

text \<open>
  \<open>reach C d K g\<close> is the randomness source from which the expression in the hole of
  \<open>K\<close> is evaluated when the whole expression is evaluated at depth \<open>d\<close> from \<open>g\<close>:
  the source that everything to the left of the hole has left. A fallback is evaluated
  only when the path is not in the property bag; \<open>None\<close> says that the hole is not
  evaluated.
\<close>

fun reach :: "'r ctx \<Rightarrow> nat \<Rightarrow> ectx \<Rightarrow> 'r \<Rightarrow> 'r option" where
  "reach C d Hole g = Some g"
| "reach C d (InNeg K) g = reach C d K g"
| "reach C d (InBinL bop K e2) g = reach C d K g"
| "reach C d (InBinR bop e1 K) g = reach C d K (rng (eval C d e1 g))"
| "reach C d (InCall fn pre K post) g = reach C d K (rng (evals C d pre g))"
| "reach C d (InTable K rows) g = reach C d K g"
| "reach C d (InFallback path K) g =
     (let p = eval_path C d path g
      in if resolve (c_bag C) (out p) = None then reach C d K (rng p) else None)"
| "reach C d (InPath pre K post fb) g = reach C d K (rng (eval_path C d pre g))"

section \<open>Sample collaborators and inputs\<close>

text \<open>
  Concrete collaborators, used to run the definitions above on concrete inputs. The
  theorems below are proved for every collaborator; these ones only instantiate them.
\<close>

text \<open>
  A reading of decimal literals as Numbers: an optional sign, digits with an optional
  fraction, or \<^verbatim>\<open>Infinity\<close>; the empty string is \<open>0\<close>. It gives the exact value of
  the literal and does not round, so it is what \<^verbatim>\<open>Number\<close> gives only where that value
  is a double (an integer, 2.5), and it is applied below to such literals only and to
  text that is no number. It does not read the other literals that \<^verbatim>\<open>Number\<close> accepts
  (exponents, hexadecimal literals, surrounding white space).
\<close>

fun num_neg :: "number \<Rightarrow> number" where
  "num_neg NaN = NaN"
| "num_neg NegInf = PosInf"
| "num_neg PosInf = NegInf"
| "num_neg (Fin r) = Fin (- r)"

definition unsigned_decimal :: "string \<Rightarrow> number" where
  "unsigned_decimal s =
     (let ip = takeWhile is_digit s; rest = dropWhile is_digit s
      in if s = ''Infinity'' then PosInf
         else if rest = [] then (if ip = [] then NaN else Fin (of_nat (digits_val ip)))
         else if hd rest = CHR ''.'' \<and> list_all is_digit (tl rest) \<and> (ip \<noteq> [] \<or> tl rest \<noteq> [])
         then Fin (of_nat (digits_val ip) + of_nat (digits_val (tl rest)) / 10 ^ length (tl rest))
         else NaN)"

definition decimalToNumber :: "string \<Rightarrow> number" where
  "decimalToNumber s =
     (case s of
        [] \<Rightarrow> Fin 0
      | c # cs \<Rightarrow>
          if c = CHR ''-'' then num_neg (unsigned_decimal cs)
          else if c = CHR ''+'' then unsigned_decimal cs
          else unsigned_decimal s)"

text \<open>
  The sum of two finite doubles where no rounding takes place: it is applied below to
  small integers only, whose sum is a double.
\<close>

definition exact_add :: "rat \<Rightarrow> rat \<Rightarrow> number" where
  "exact_add a b = Fin (a + b)"

text \<open>
  The two operations at an input where they round. \<^verbatim>\<open>Number('0.1')\<close> is the double
  3602879701896397 / 2^55 and \<^verbatim>\<open>Number('+0.2')\<close> the double 3602879701896397 / 2^54;
  their exact sum is no double, and \<^verbatim>\<open>+\<close> gives the nearest one,
  1351079888211149 / 2^52, which prints as 0.30000000000000004. Elsewhere these two
  are \<open>decimalToNumber\<close> and \<open>exact_add\<close>, and they are applied to nothing else.
\<close>

definition double_literal :: "string \<Rightarrow> number" where
  "double_literal s =
     (if s = ''0.1'' then Fin (3602879701896397 / 36028797018963968)
      else if s = ''+0.2'' then Fin (3602879701896397 / 18014398509481984)
      else decimalToNumber s)"

definition double_add :: "rat \<Rightarrow> rat \<Rightarrow> number" where
  "double_add a b =
     (if a = 3602879701896397 / 36028797018963968 \<and> b = 3602879701896397 / 18014398509481984
      then Fin (1351079888211149 / 4503599627370496)
      else exact_add a b)"

text \<open>The text of a number: decimal digits, and a fraction as numerator/denominator.\<close>

fun show_digits :: "nat \<Rightarrow> nat \<Rightarrow> string" where
  "show_digits 0 n = []"
| "show_digits (Suc fuel) n =
     (if n < 10 then [char_of (48 + n)]
      else show_digits fuel (n div 10) @ [char_of (48 + n mod 10)])"

definition show_nat :: "nat \<Rightarrow> string" where
  "show_nat n = show_digits (Suc n) n"

definition show_rat :: "rat \<Rightarrow> string" where
  "show_rat r =
     (case quotient_of r of
        (n, d) \<Rightarrow>
          (if n < 0 then ''-'' else []) @ show_nat (nat \<bar>n\<bar>) @
          (if d = 1 then [] else ''/'' @ show_nat (nat d)))"

fun sample_stringify :: "pvalue \<Rightarrow> string" where
  "sample_stringify (VStr s) = s"
| "sample_stringify (VNum r) = show_rat r"
| "sample_stringify (VArr xs) = ''[array]''"
| "sample_stringify (VObj kvs) = ''[object]''"

fun sample_numeric :: "pvalue \<Rightarrow> rat option" where
  "sample_numeric (VNum r) = Some r"
| "sample_numeric (VStr s) = (case decimalToNumber s of Fin r \<Rightarrow> Some r | _ \<Rightarrow> None)"
| "sample_numeric _ = None"

text \<open>
  A dice source with fixed faces: a roll of \<open>n\<close> dice takes the next \<open>n\<close> faces and
  adds them up. It serves plain \<^verbatim>\<open>NdM\<close> rolls and applies no modifier.
\<close>

definition fixed_dice ::
  "nat \<Rightarrow> nat \<Rightarrow> modifier list \<Rightarrow> nat list \<Rightarrow> (nat list \<times> rat) \<times> nat list" where
  "fixed_dice n m mods g = ((take n g, of_nat (sum_list (take n g))), drop n g)"

text \<open>
  A parser for the part of the grammar of section 6 that the spec fixes: numbers, plain
  dice literals, dotted and bracketed property paths, calls, parentheses, unary minus,
  the four arithmetic operators with the usual precedence, and one comparison. The
  first argument of each function bounds the depth of the recursion.
\<close>

datatype token = TNum rat | TDice nat nat | TId string | TSym string

definition is_alpha :: "char \<Rightarrow> bool" where
  "is_alpha c = (c \<in> set ''abcdefghijklmnopqrstuvwxyzABCDEFGHIJKLMNOPQRSTUVWXYZ_'')"

definition is_ident :: "char \<Rightarrow> bool" where
  "is_ident c = (is_alpha c \<or> is_digit c)"

fun lex :: "nat \<Rightarrow> string \<Rightarrow> token list option" where
  "lex 0 s = (if s = [] then Some [] else None)"
| "lex (Suc n) [] = Some []"
| "lex (Suc n) (c # cs) =
     (if c = CHR '' '' then lex n cs
      else if is_digit c then
        (let ds = takeWhile is_digit (c # cs); r1 = dropWhile is_digit (c # cs)
         in if startsWith r1 ''d'' \<and> tl r1 \<noteq> [] \<and> is_digit (hd (tl r1))
            then map_option (Cons (TDice (digits_val ds) (digits_val (takeWhile is_digit (tl r1)))))
                   (lex n (dropWhile is_digit (tl r1)))
            else if startsWith r1 ''.'' \<and> tl r1 \<noteq> [] \<and> is_digit (hd (tl r1))
            then (let fs = takeWhile is_digit (tl r1)
                  in map_option
                       (Cons (TNum (of_nat (digits_val ds) + of_nat (digits_val fs) / 10 ^ length fs)))
                       (lex n (dropWhile is_digit (tl r1))))
            else map_option (Cons (TNum (of_nat (digits_val ds)))) (lex n r1))
      else if is_alpha c then
        map_option (Cons (TId (takeWhile is_ident (c # cs)))) (lex n (dropWhile is_ident (c # cs)))
      else if take 2 (c # cs) \<in> set [''=='', ''!='', ''<='', ''>='']
      then map_option (Cons (TSym (take 2 (c # cs)))) (lex n (drop 2 (c # cs)))
      else if c \<in> set ''+-*/(),.[]<>'' then map_option (Cons (TSym [c])) (lex n cs)
      else None)"

definition cmp_op :: "string \<Rightarrow> binop option" where
  "cmp_op s =
     (if s = ''=='' then Some Eq else if s = ''!='' then Some Neq
      else if s = ''<'' then Some Lt else if s = ''<='' then Some Le
      else if s = ''>'' then Some Gt else if s = ''>='' then Some Ge else None)"

function p_cmp :: "nat \<Rightarrow> token list \<Rightarrow> (expr \<times> token list) option"
and p_sum :: "nat \<Rightarrow> token list \<Rightarrow> (expr \<times> token list) option"
and p_sum_tail :: "nat \<Rightarrow> expr \<Rightarrow> token list \<Rightarrow> (expr \<times> token list) option"
and p_term :: "nat \<Rightarrow> token list \<Rightarrow> (expr \<times> token list) option"
and p_term_tail :: "nat \<Rightarrow> expr \<Rightarrow> token list \<Rightarrow> (expr \<times> token list) option"
and p_unary :: "nat \<Rightarrow> token list \<Rightarrow> (expr \<times> token list) option"
and p_args :: "nat \<Rightarrow> token list \<Rightarrow> (expr list \<times> token list) option"
and p_path :: "nat \<Rightarrow> seg list \<Rightarrow> token list \<Rightarrow> (seg list \<times> token list) option"
where
  "p_cmp 0 ts = None"
| "p_cmp (Suc n) ts =
     (case p_sum n ts of
        None \<Rightarrow> None
      | Some (a, rest) \<Rightarrow>
          (case rest of
             TSym s # rest1 \<Rightarrow>
               (case cmp_op s of
                  None \<Rightarrow> Some (a, rest)
                | Some bop \<Rightarrow>
                    (case p_sum n rest1 of
                       None \<Rightarrow> None
                     | Some (b, rest2) \<Rightarrow> Some (Bin bop a b, rest2)))
           | _ \<Rightarrow> Some (a, rest)))"
| "p_sum 0 ts = None"
| "p_sum (Suc n) ts =
     (case p_term n ts of None \<Rightarrow> None | Some (a, rest) \<Rightarrow> p_sum_tail n a rest)"
| "p_sum_tail 0 a ts = None"
| "p_sum_tail (Suc n) a ts =
     (case ts of
        TSym s # rest \<Rightarrow>
          if s = ''+'' \<or> s = ''-'' then
            (case p_term n rest of
               None \<Rightarrow> None
             | Some (b, rest') \<Rightarrow> p_sum_tail n (Bin (if s = ''+'' then Add else Sub) a b) rest')
          else Some (a, ts)
      | _ \<Rightarrow> Some (a, ts))"
| "p_term 0 ts = None"
| "p_term (Suc n) ts =
     (case p_unary n ts of None \<Rightarrow> None | Some (a, rest) \<Rightarrow> p_term_tail n a rest)"
| "p_term_tail 0 a ts = None"
| "p_term_tail (Suc n) a ts =
     (case ts of
        TSym s # rest \<Rightarrow>
          if s = ''*'' \<or> s = ''/'' then
            (case p_unary n rest of
               None \<Rightarrow> None
             | Some (b, rest') \<Rightarrow> p_term_tail n (Bin (if s = ''*'' then Mul else Div) a b) rest')
          else Some (a, ts)
      | _ \<Rightarrow> Some (a, ts))"
| "p_unary 0 ts = None"
| "p_unary (Suc n) ts =
     (case ts of
        [] \<Rightarrow> None
      | TNum r # rest \<Rightarrow> Some (Lit (VNum r), rest)
      | TDice c m # rest \<Rightarrow> Some (Dice c m [], rest)
      | TSym s # rest \<Rightarrow>
          if s = ''-'' then
            (case p_unary n rest of None \<Rightarrow> None | Some (a, rest') \<Rightarrow> Some (Neg a, rest'))
          else if s = ''('' then
            (case p_cmp n rest of
               None \<Rightarrow> None
             | Some (a, rest') \<Rightarrow>
                 (case rest' of
                    TSym s' # rest'' \<Rightarrow> if s' = '')'' then Some (a, rest'') else None
                  | _ \<Rightarrow> None))
          else None
      | TId f # rest \<Rightarrow>
          (case rest of
             TSym s # rest' \<Rightarrow>
               if s = ''('' then
                 (case p_args n rest' of
                    None \<Rightarrow> None
                  | Some (args, rest'') \<Rightarrow> Some (Call f args, rest''))
               else
                 (case p_path n [Key f] rest of
                    None \<Rightarrow> None
                  | Some (p, rest'') \<Rightarrow> Some (Ref p None, rest''))
           | _ \<Rightarrow> Some (Ref [Key f] None, rest)))"
| "p_args 0 ts = None"
| "p_args (Suc n) ts =
     (case ts of
        [] \<Rightarrow> None
      | t # rest \<Rightarrow>
          if t = TSym '')'' then Some ([], rest)
          else
            (case p_cmp n ts of
               None \<Rightarrow> None
             | Some (a, rest') \<Rightarrow>
                 (case rest' of
                    [] \<Rightarrow> None
                  | t' # rest'' \<Rightarrow>
                      if t' = TSym '')'' then Some ([a], rest'')
                      else if t' = TSym '','' \<and> rest'' \<noteq> [] \<and> hd rest'' \<noteq> TSym '')'' then
                        (case p_args n rest'' of
                           None \<Rightarrow> None
                         | Some (as, rest3) \<Rightarrow> Some (a # as, rest3))
                      else None)))"
| "p_path 0 acc ts = None"
| "p_path (Suc n) acc ts =
     (case ts of
        TSym s # rest \<Rightarrow>
          if s = ''.'' then
            (case rest of
               TId k # rest' \<Rightarrow> p_path n (acc @ [Key k]) rest'
             | _ \<Rightarrow> None)
          else if s = ''['' then
            (case p_cmp n rest of
               None \<Rightarrow> None
             | Some (e, rest') \<Rightarrow>
                 (case rest' of
                    TSym s' # rest'' \<Rightarrow>
                      if s' = '']'' then p_path n (acc @ [Dyn e]) rest'' else None
                  | _ \<Rightarrow> None))
          else Some (acc, ts)
      | _ \<Rightarrow> Some (acc, ts))"
  by pat_completeness auto
termination
  by (relation "measure (case_sum (case_sum (case_sum fst fst) (case_sum fst fst))
                                   (case_sum (case_sum fst fst) (case_sum fst fst)))")
     auto

definition sample_parser :: "string \<Rightarrow> expr option" where
  "sample_parser s =
     (case lex (Suc (length s)) s of
        None \<Rightarrow> None
      | Some ts \<Rightarrow>
          (case p_cmp (8 * length ts + 8) ts of
             Some (e, []) \<Rightarrow> Some e
           | _ \<Rightarrow> None))"

definition sample_env :: "(nat list) env" where
  "sample_env =
     \<lparr> parse_expr = sample_parser, roll = fixed_dice, stringify = sample_stringify,
       numeric = sample_numeric \<rparr>"

text \<open>
  The three entry points of the engine that the sources call, over the sample engine:
  \<^verbatim>\<open>ComputablePhrase.computeMessageStatic\<close>, \<^verbatim>\<open>new ComputablePhrase(p).compute\<close>, and
  \<^verbatim>\<open>new Formula(f).compute\<close>, which takes a formula without markers. Each gives the
  \<^verbatim>\<open>result\<close>. The dice of the last two show 4 and 5.
\<close>

definition sample_static :: "jsval \<Rightarrow> pvalue \<Rightarrow> options \<Rightarrow> jsval" where
  "sample_static phrase bag opts =
     (case phrase of
        JStr s \<Rightarrow> JStr (result (fst (compute sample_env s bag opts [])))
      | _ \<Rightarrow> JUndefined)"

definition sample_phrase :: "string \<Rightarrow> pvalue \<Rightarrow> options \<Rightarrow> jsval" where
  "sample_phrase phrase bag opts = JStr (result (fst (compute sample_env phrase bag opts [4, 5])))"

definition sample_formula :: "string \<Rightarrow> pvalue \<Rightarrow> options \<Rightarrow> jsval" where
  "sample_formula f bag opts =
     JStr (result (fst (compute sample_env (open_marker @ f @ close_marker) bag opts [4, 5])))"

text \<open>Sample inputs.\<close>

definition field_hp :: numberField where
  "field_hp =
     new_NumberField
       [''key'' \<mapsto> JStr ''hp'', ''minVal'' \<mapsto> JStr ''0'', ''maxVal'' \<mapsto> JStr ''${hpMax}$'',
        ''label'' \<mapsto> JStr ''Hit points'']"

definition bag_hp :: pvalue where
  "bag_hp = VObj [(''hpMax'', VNum 20), (''dex'', VNum 3)]"

definition field_10_5 :: numberField where
  "field_10_5 =
     new_NumberField [''key'' \<mapsto> JStr ''hp'', ''minVal'' \<mapsto> JStr ''10'', ''maxVal'' \<mapsto> JStr ''5'']"

definition field_plain :: numberField where
  "field_plain = new_NumberField [''key'' \<mapsto> JStr ''hp'']"

definition field_decimal :: numberField where
  "field_decimal = new_NumberField [''key'' \<mapsto> JStr ''weight'', ''allowDecimal'' \<mapsto> JBool True]"

definition opts0 :: options where
  "opts0 = \<lparr> opt_defaultValue = ''0'', computeExplanation = Some True, reference = None \<rparr>"

definition bag_cycle :: pvalue where
  "bag_cycle = VObj [(''a'', VStr ''${b}$''), (''b'', VStr ''${a}$'')]"

definition bag_name :: pvalue where
  "bag_name = VObj [(''name'', VStr ''x''), (''a'', VStr ''${2/0}$'')]"

definition world0 :: world where
  "world0 =
     \<lparr> initFormula = ''2d6+dex'', core_rollMode = ''publicroll'', config_formula = [],
       system_initiative = [], console = [] \<rparr>"

definition fighter :: "pvalue combatant" where
  "fighter =
     \<lparr> cid = ''c1'', actor_props = bag_hp, isOwner = True, hidden = False, cname = ''Fighter'',
       doc = [''initiative'' \<mapsto> JNull, ''img'' \<mapsto> JStr ''fighter.png''] \<rparr>"

definition rogue :: "pvalue combatant" where
  "rogue =
     \<lparr> cid = ''c2'', actor_props = VObj [(''dex'', VNum 5)], isOwner = True, hidden = True,
       cname = ''Rogue'', doc = [''initiative'' \<mapsto> JNull] \<rparr>"

definition combat0 :: "pvalue combat" where
  "combat0 =
     \<lparr> combatants = [(''c1'', fighter), (''c2'', rogue)], current = Some ''c1'',
       turns = [''c2'', ''c1''] \<rparr>"

definition form0 :: form where
  "form0 =
     \<lparr> val = (\<lambda>sel. if sel = ''#numberFieldLabel'' then JStr ''Hit points''
                     else if sel = ''#numberFieldMinVal'' then JStr ''0'' else JStr []),
       checked = (\<lambda>sel. sel = ''#numberFieldAllowRelative'') \<rparr>"

definition super_key :: "string \<Rightarrow> form \<Rightarrow> error + obj" where
  "super_key k html = Inr [''key'' \<mapsto> JStr k]"

definition super_nokey :: "form \<Rightarrow> error + obj" where
  "super_nokey html = Inr [''cssClass'' \<mapsto> JStr ''wide'']"

section \<open>NumberField: theorems\<close>

text \<open>
  C1. With a truthy (so: a non-empty) \<^verbatim>\<open>minVal\<close>, \<^verbatim>\<open>_getMinVal\<close> returns
  \<^verbatim>\<open>Number(minVal)\<close> when that is not NaN; otherwise the Number of the result of
  computing \<^verbatim>\<open>minVal\<close> as a formula against the property bag, with default value '0'
  and the component's key as reference; and \<open>-Infinity\<close> when that is NaN too. The
  same holds of \<^verbatim>\<open>_getMaxVal\<close> with \<^verbatim>\<open>maxVal\<close> and \<open>+Infinity\<close>.
\<close>

theorem getMinVal_getMaxVal_resolution:
  "(truthy (minVal nf) \<and> \<not> isNaN (Number str2num (minVal nf)) \<longrightarrow>
      getMinVal str2num computeMessageStatic nf bag = Number str2num (minVal nf)) \<and>
   (truthy (minVal nf) \<and> isNaN (Number str2num (minVal nf)) \<and>
    \<not> isNaN (formula_bound str2num computeMessageStatic nf bag (minVal nf)) \<longrightarrow>
      getMinVal str2num computeMessageStatic nf bag =
        formula_bound str2num computeMessageStatic nf bag (minVal nf)) \<and>
   (truthy (minVal nf) \<and> isNaN (Number str2num (minVal nf)) \<and>
    isNaN (formula_bound str2num computeMessageStatic nf bag (minVal nf)) \<longrightarrow>
      getMinVal str2num computeMessageStatic nf bag = NegInf) \<and>
   (truthy (maxVal nf) \<and> \<not> isNaN (Number str2num (maxVal nf)) \<longrightarrow>
      getMaxVal str2num computeMessageStatic nf bag = Number str2num (maxVal nf)) \<and>
   (truthy (maxVal nf) \<and> isNaN (Number str2num (maxVal nf)) \<and>
    \<not> isNaN (formula_bound str2num computeMessageStatic nf bag (maxVal nf)) \<longrightarrow>
      getMaxVal str2num computeMessageStatic nf bag =
        formula_bound str2num computeMessageStatic nf bag (maxVal nf)) \<and>
   (truthy (maxVal nf) \<and> isNaN (Number str2num (maxVal nf)) \<and>
    isNaN (formula_bound str2num computeMessageStatic nf bag (maxVal nf)) \<longrightarrow>
      getMaxVal str2num computeMessageStatic nf bag = PosInf)"
  by (simp add: getMinVal_def getMaxVal_def formula_bound_def Let_def)

lemma field_hp_bounds:
  "truthy (minVal field_hp)" "\<not> isNaN (Number decimalToNumber (minVal field_hp))"
  "truthy (maxVal field_hp)" "isNaN (Number decimalToNumber (maxVal field_hp))"
  "formula_bound decimalToNumber sample_static field_hp bag_hp (maxVal field_hp) = Fin 20"
  "getMinVal decimalToNumber sample_static field_hp bag_hp = Fin 0"
  "getMaxVal decimalToNumber sample_static field_hp bag_hp = Fin 20"
  by code_simp+

theorem getMinVal_getMaxVal_resolution_witness:
  "truthy (minVal field_hp) \<and> \<not> isNaN (Number decimalToNumber (minVal field_hp)) \<and>
   getMinVal decimalToNumber sample_static field_hp bag_hp = Fin 0 \<and>
   truthy (maxVal field_hp) \<and> isNaN (Number decimalToNumber (maxVal field_hp)) \<and>
   formula_bound decimalToNumber sample_static field_hp bag_hp (maxVal field_hp) = Fin 20 \<and>
   getMaxVal decimalToNumber sample_static field_hp bag_hp = Fin 20"
  using getMinVal_getMaxVal_resolution [of field_hp decimalToNumber sample_static bag_hp]
    field_hp_bounds
  by simp

lemma unset_bounds:
  "\<not> truthy (minVal nf) \<Longrightarrow> getMinVal str2num computeMessageStatic nf bag = NegInf"
  "\<not> truthy (maxVal nf) \<Longrightarrow> getMaxVal str2num computeMessageStatic nf bag = PosInf"
  by (simp_all add: getMinVal_def getMaxVal_def)

lemma bounds_not_NaN:
  "\<not> isNaN (getMinVal str2num computeMessageStatic nf bag)"
  "\<not> isNaN (getMaxVal str2num computeMessageStatic nf bag)"
  by (simp_all add: getMinVal_def getMaxVal_def Let_def)

text \<open>
  C2. For every instance \<open>x\<close> that the constructor builds,
  \<^verbatim>\<open>NumberField.fromJSON(x.toJSON(), x.templateAddress)\<close> is \<open>x\<close> again, field by
  field, provided \<^verbatim>\<open>super.toJSON()\<close> writes the base fields under their names.
\<close>

theorem fromJSON_toJSON_roundtrip:
  assumes "serializes_base super_toJSON (new_NumberField d)"
  shows "fromJSON (toJSON super_toJSON (new_NumberField d))
           (templateAddress (new_NumberField d)) = new_NumberField d"
  using assms
  by (simp add: serializes_base_def fromJSON_def toJSON_def new_NumberField_def getProp_def
      dflt_def)

lemma InputComponent_toJSON_serializes: "serializes_base InputComponent_toJSON x"
  by (simp add: serializes_base_def InputComponent_toJSON_def getProp_def)

theorem fromJSON_toJSON_roundtrip_witness:
  "serializes_base InputComponent_toJSON field_hp \<and>
   fromJSON (toJSON InputComponent_toJSON field_hp) (templateAddress field_hp) = field_hp \<and>
   maxVal (fromJSON (toJSON InputComponent_toJSON field_hp) JUndefined) = JStr ''${hpMax}$'' \<and>
   allowRelative (fromJSON (toJSON InputComponent_toJSON field_hp) JUndefined) = JBool True"
  using fromJSON_toJSON_roundtrip
          [of InputComponent_toJSON
              "[''key'' \<mapsto> JStr ''hp'', ''minVal'' \<mapsto> JStr ''0'', ''maxVal'' \<mapsto> JStr ''${hpMax}$'',
                ''label'' \<mapsto> JStr ''Hit points'']"]
    InputComponent_toJSON_serializes [of field_hp]
  by (simp add: field_hp_def InputComponent_toJSON_serializes)
    (simp add: fromJSON_def toJSON_def InputComponent_toJSON_def new_NumberField_def getProp_def
      dflt_def)

text \<open>
  C5. When the field data that \<^verbatim>\<open>super.extractConfig\<close> extracts has no key (missing or
  empty, that is falsy), \<^verbatim>\<open>extractConfig\<close> throws the error "Component key is mandatory
  for number fields"; when the key is truthy (a non-empty string), it returns the field
  data, with the eight properties read from the form, and does not throw.
\<close>

theorem extractConfig_key_mandatory:
  assumes "super_extractConfig html = Inr fieldData"
  shows "(\<not> truthy (getProp fieldData ''key'') \<longrightarrow>
            extractConfig super_extractConfig html =
              Inl (Error ''Component key is mandatory for number fields'')) \<and>
         (truthy (getProp fieldData ''key'') \<longrightarrow>
            extractConfig super_extractConfig html =
              Inr (fieldData
                 (''label'' \<mapsto> val html ''#numberFieldLabel'',
                  ''defaultValue'' \<mapsto> val html ''#numberFieldValue'',
                  ''size'' \<mapsto> val html ''#numberFieldSize'',
                  ''allowDecimal'' \<mapsto> JBool (checked html ''#numberFieldAllowDecimal''),
                  ''minVal'' \<mapsto> val html ''#numberFieldMinVal'',
                  ''maxVal'' \<mapsto> val html ''#numberFieldMaxVal'',
                  ''allowRelative'' \<mapsto> JBool (checked html ''#numberFieldAllowRelative''),
                  ''showControls'' \<mapsto> JBool (checked html ''#numberFieldShowControls''))))"
  using assms by (simp add: extractConfig_def)

theorem extractConfig_key_mandatory_witness:
  "super_nokey form0 = Inr [''cssClass'' \<mapsto> JStr ''wide''] \<and>
   \<not> truthy (getProp [''cssClass'' \<mapsto> JStr ''wide''] ''key'') \<and>
   extractConfig super_nokey form0 =
     Inl (Error ''Component key is mandatory for number fields'') \<and>
   super_key [] form0 = Inr [''key'' \<mapsto> JStr []] \<and>
   \<not> truthy (getProp [''key'' \<mapsto> JStr []] ''key'') \<and>
   extractConfig (super_key []) form0 =
     Inl (Error ''Component key is mandatory for number fields'') \<and>
   super_key ''hp'' form0 = Inr [''key'' \<mapsto> JStr ''hp''] \<and>
   truthy (getProp [''key'' \<mapsto> JStr ''hp''] ''key'') \<and>
   (case extractConfig (super_key ''hp'') form0 of
      Inl e \<Rightarrow> False
    | Inr r \<Rightarrow> getProp r ''key'' = JStr ''hp'' \<and> getProp r ''minVal'' = JStr ''0'' \<and>
               getProp r ''allowRelative'' = JBool True \<and> getProp r ''allowDecimal'' = JBool False)"
  using extractConfig_key_mandatory [of "super_key []" form0 "[''key'' \<mapsto> JStr []]"]
    extractConfig_key_mandatory [of "super_key ''hp''" form0 "[''key'' \<mapsto> JStr ''hp'']"]
    extractConfig_key_mandatory [of super_nokey form0 "[''cssClass'' \<mapsto> JStr ''wide'']"]
  by (simp add: super_key_def super_nokey_def getProp_def form0_def)

lemma extractConfig_super_throws:
  "super_extractConfig html = Inl e \<Longrightarrow> extractConfig super_extractConfig html = Inl e"
  by (simp add: extractConfig_def)

lemma clamp_in_range:
  assumes "\<not> isNaN v" "num_le mn mx"
  shows "num_le mn (clamp mn mx v) \<and> num_le (clamp mn mx v) mx"
  using assms
  by (cases v; cases mn; cases mx) (auto simp: clamp_def num_gt_def)

lemma finish_number:
  "finish old (JNum r) ws = \<lparr> shown = JNum r, change = Some (JNum r), warnings = ws \<rparr>"
  by (simp add: finish_def)

lemma finish_old:
  "finish old (JStr old) ws = \<lparr> shown = JStr old, change = None, warnings = ws \<rparr>"
  by (simp add: finish_def)

lemma persistValue_accepted:
  assumes "\<not> isNaN (str2num newText)"
    and "truthy (allowDecimal nf) \<or> isInteger (str2num newText)"
  shows "\<exists>ws. persistValue str2num fin_add computeMessageStatic nf bag newText oldValue =
           finish oldValue
             (JNum (clamp (getMinVal str2num computeMessageStatic nf bag) (getMaxVal str2num computeMessageStatic nf bag)
                (entered str2num fin_add nf newText oldValue))) ws"
proof -
  have v1: "(if \<not> truthy (allowDecimal nf) \<and> \<not> isInteger (Number str2num (JStr newText))
             then (oldValue, [MustBeInteger]) else (newText, [])) = (newText, [])"
    using assms(2) by auto
  have v3: "Number str2num
              (if truthy (allowRelative nf) \<and> (startsWith newText ''+'' \<or> startsWith newText ''-'')
               then JNum (num_add fin_add (Number str2num (JStr oldValue))
                            (Number str2num (JStr newText)))
               else JStr newText) = entered str2num fin_add nf newText oldValue"
    by (auto simp add: entered_def)
  show ?thesis
    using assms(1)
    unfolding persistValue_def v1 Let_def prod.case v3 clamp_def
    by (auto split: if_splits)
qed

text \<open>
  C9, as amended. When the new text is not numeric, nothing is written and the visible
  input shows the old value again. When it is numeric and decimals are allowed or it is
  an integer, the value is the sum of the old value and the new one, as the language
  computes it, if relative input is allowed and the text starts with '+' or '-', and
  the new one otherwise; what is shown and
  written is that value, replaced by the minimum when it is below the minimum and then
  by the maximum when it is above the maximum. It lies between the minimum and the
  maximum when the value is not NaN and the minimum is at most the maximum.
\<close>

theorem persistValue_cases:
  "(isNaN (str2num newText) \<longrightarrow>
      persistValue str2num fin_add computeMessageStatic nf bag newText oldValue =
        \<lparr> shown = JStr oldValue, change = None, warnings = [MustBeNumeric] \<rparr>) \<and>
   (\<not> isNaN (str2num newText) \<and> (truthy (allowDecimal nf) \<or> isInteger (str2num newText)) \<longrightarrow>
      (let v = (if truthy (allowRelative nf) \<and> (startsWith newText ''+'' \<or> startsWith newText ''-'')
                then num_add fin_add (str2num oldValue) (str2num newText) else str2num newText);
           mn = getMinVal str2num computeMessageStatic nf bag;
           mx = getMaxVal str2num computeMessageStatic nf bag;
           r = (let a = (if num_lt v mn then mn else v) in if num_gt a mx then mx else a)
       in shown (persistValue str2num fin_add computeMessageStatic nf bag newText oldValue) = JNum r \<and>
          change (persistValue str2num fin_add computeMessageStatic nf bag newText oldValue) = Some (JNum r) \<and>
          (\<not> isNaN v \<and> num_le mn mx \<longrightarrow> num_le mn r \<and> num_le r mx)))"
proof -
  have a: "isNaN (str2num newText) \<longrightarrow>
      persistValue str2num fin_add computeMessageStatic nf bag newText oldValue =
        \<lparr> shown = JStr oldValue, change = None, warnings = [MustBeNumeric] \<rparr>"
    by (simp add: persistValue_def finish_old)
  { assume h: "\<not> isNaN (str2num newText)" "truthy (allowDecimal nf) \<or> isInteger (str2num newText)"
    let ?v = "entered str2num fin_add nf newText oldValue"
    let ?mn = "getMinVal str2num computeMessageStatic nf bag"
    let ?mx = "getMaxVal str2num computeMessageStatic nf bag"
    from persistValue_accepted[where str2num = str2num and newText = newText, OF h,
        of fin_add computeMessageStatic bag oldValue]
    obtain ws where
      p: "persistValue str2num fin_add computeMessageStatic nf bag newText oldValue = finish oldValue (JNum (clamp ?mn ?mx ?v)) ws"
      by blast
    have "shown (persistValue str2num fin_add computeMessageStatic nf bag newText oldValue) = JNum (clamp ?mn ?mx ?v)"
      and "change (persistValue str2num fin_add computeMessageStatic nf bag newText oldValue) = Some (JNum (clamp ?mn ?mx ?v))"
      and "\<not> isNaN ?v \<and> num_le ?mn ?mx \<longrightarrow> num_le ?mn (clamp ?mn ?mx ?v) \<and> num_le (clamp ?mn ?mx ?v) ?mx"
      using p clamp_in_range by (simp_all add: finish_number)
  }
  then have b: "\<not> isNaN (str2num newText) \<and> (truthy (allowDecimal nf) \<or> isInteger (str2num newText)) \<longrightarrow>
      (let v = (if truthy (allowRelative nf) \<and> (startsWith newText ''+'' \<or> startsWith newText ''-'')
                then num_add fin_add (str2num oldValue) (str2num newText) else str2num newText);
           mn = getMinVal str2num computeMessageStatic nf bag;
           mx = getMaxVal str2num computeMessageStatic nf bag;
           r = (let a = (if num_lt v mn then mn else v) in if num_gt a mx then mx else a)
       in shown (persistValue str2num fin_add computeMessageStatic nf bag newText oldValue) = JNum r \<and>
          change (persistValue str2num fin_add computeMessageStatic nf bag newText oldValue) = Some (JNum r) \<and>
          (\<not> isNaN v \<and> num_le mn mx \<longrightarrow> num_le mn r \<and> num_le r mx))"
    unfolding Let_def entered_def clamp_def by blast
  from a b show ?thesis by blast
qed

lemma field_hp_inputs:
  "isNaN (decimalToNumber ''abc'')"
  "\<not> isNaN (decimalToNumber ''+25'')"
  "isInteger (decimalToNumber ''+25'')"
  "persistValue decimalToNumber exact_add sample_static field_hp bag_hp ''abc'' ''7'' =
     \<lparr> shown = JStr ''7'', change = None, warnings = [MustBeNumeric] \<rparr>"
  "persistValue decimalToNumber exact_add sample_static field_hp bag_hp ''+25'' ''7'' =
     \<lparr> shown = JNum (Fin 20), change = Some (JNum (Fin 20)), warnings = [MustBeSmaller (Fin 20)] \<rparr>"
  "persistValue decimalToNumber exact_add sample_static field_hp bag_hp ''+5'' ''7'' =
     \<lparr> shown = JNum (Fin 12), change = Some (JNum (Fin 12)), warnings = [] \<rparr>"
  "\<not> isNaN (double_literal ''+0.2'')"
  "truthy (allowDecimal field_decimal)"
  "persistValue double_literal double_add sample_static field_decimal bag_hp ''+0.2'' ''0.1'' =
     \<lparr> shown = JNum (Fin (1351079888211149 / 4503599627370496)),
       change = Some (JNum (Fin (1351079888211149 / 4503599627370496))), warnings = [] \<rparr>"
  by code_simp+

theorem persistValue_cases_witness:
  "isNaN (decimalToNumber ''abc'') \<and>
   persistValue decimalToNumber exact_add sample_static field_hp bag_hp ''abc'' ''7'' =
     \<lparr> shown = JStr ''7'', change = None, warnings = [MustBeNumeric] \<rparr> \<and>
   \<not> isNaN (decimalToNumber ''+25'') \<and> isInteger (decimalToNumber ''+25'') \<and>
   change (persistValue decimalToNumber exact_add sample_static field_hp bag_hp ''+25'' ''7'') =
     Some (JNum (Fin 20)) \<and>
   num_le (Fin 0) (Fin 20) \<and> num_le (Fin 20) (Fin 20) \<and>
   \<not> isNaN (double_literal ''+0.2'') \<and> truthy (allowDecimal field_decimal) \<and>
   change (persistValue double_literal double_add sample_static field_decimal bag_hp ''+0.2'' ''0.1'') =
     Some (JNum (Fin (1351079888211149 / 4503599627370496)))"
  using persistValue_cases [of decimalToNumber "''abc''" exact_add sample_static field_hp bag_hp "''7''"]
    persistValue_cases [of decimalToNumber "''+25''" exact_add sample_static field_hp bag_hp "''7''"]
    field_hp_inputs
  by simp

text \<open>
  C9, the claim as stated fails: with a minimum of 10 and a maximum of 5 the accepted
  input 7 is persisted as 5, which is not in the interval from 10 to 5.
\<close>

theorem persistValue_outside_interval:
  "\<not> isNaN (decimalToNumber ''7'') \<and> isInteger (decimalToNumber ''7'') \<and>
   change (persistValue decimalToNumber exact_add sample_static field_10_5 bag_hp ''7'' ''0'') =
     Some (JNum (Fin 5)) \<and>
   getMinVal decimalToNumber sample_static field_10_5 bag_hp = Fin 10 \<and>
   getMaxVal decimalToNumber sample_static field_10_5 bag_hp = Fin 5 \<and>
   \<not> num_le (Fin 10) (Fin 5)"
  by code_simp

text \<open>
  The branch for a number that is no integer while decimals are not allowed sets the new
  value back to the old text and goes on: the old text is then read as a relative input
  when it starts with a sign, and it is compared with the minimum and the maximum. With
  the old value -3 and the input 2.5 the field writes -6; with the old value 7, a
  minimum of 10 and a maximum of 5 it writes 5.
\<close>

lemma persistValue_non_integer_goes_on:
  "persistValue decimalToNumber exact_add sample_static field_plain bag_hp ''2.5'' ''-3'' =
     \<lparr> shown = JNum (Fin (- 6)), change = Some (JNum (Fin (- 6))), warnings = [MustBeInteger] \<rparr>"
  "persistValue decimalToNumber exact_add sample_static field_10_5 bag_hp ''2.5'' ''7'' =
     \<lparr> shown = JNum (Fin 5), change = Some (JNum (Fin 5)),
       warnings = [MustBeInteger, MustBeGreater (Fin 10), MustBeSmaller (Fin 5)] \<rparr>"
  "persistValue decimalToNumber exact_add sample_static field_plain bag_hp ''2.5'' ''7'' =
     \<lparr> shown = JNum (Fin 7), change = Some (JNum (Fin 7)), warnings = [MustBeInteger] \<rparr>"
  by code_simp+

section \<open>Initiative: theorems\<close>

text \<open>
  C10. \<^verbatim>\<open>_getInitiativeFormula\<close> never returns an empty formula: with an empty setting
  it returns '1d20', otherwise the setting, and in both cases the value it has installed
  as \<^verbatim>\<open>CONFIG.Combat.initiative.formula\<close>.
\<close>

theorem getInitiativeFormula_never_empty:
  "snd (getInitiativeFormula w) \<noteq> [] \<and>
   (initFormula w = [] \<longrightarrow> snd (getInitiativeFormula w) = ''1d20'') \<and>
   (initFormula w \<noteq> [] \<longrightarrow> snd (getInitiativeFormula w) = initFormula w) \<and>
   config_formula (fst (getInitiativeFormula w)) = snd (getInitiativeFormula w)"
  by (simp add: getInitiativeFormula_def or_else_def Let_def)

theorem getInitiativeFormula_never_empty_witness:
  "initFormula (world0\<lparr> initFormula := [] \<rparr>) = [] \<and>
   snd (getInitiativeFormula (world0\<lparr> initFormula := [] \<rparr>)) = ''1d20'' \<and>
   initFormula world0 \<noteq> [] \<and>
   snd (getInitiativeFormula world0) = ''2d6+dex'' \<and>
   config_formula (fst (getInitiativeFormula world0)) = ''2d6+dex''"
  using getInitiativeFormula_never_empty [of "world0\<lparr> initFormula := [] \<rparr>"]
    getInitiativeFormula_never_empty [of world0]
  by (simp add: world0_def)

lemma getInitiativeRoll_initFormula:
  "initFormula (fst (getInitiativeRoll w r)) = initFormula w"
  by (simp add: getInitiativeRoll_def getInitiativeFormula_def Let_def split: option.splits)

lemma getInitiativeRoll_raw:
  "raw (snd (getInitiativeRoll w r)) =
     (if r \<noteq> None \<and> r \<noteq> Some [] then the r else or_else (initFormula w) ''1d20'')"
  by (simp add: getInitiativeRoll_def getInitiativeFormula_def Let_def or_else_def
      split: option.splits)

lemma getInitiativeRoll_raw_same:
  "raw (snd (getInitiativeRoll (fst (getInitiativeRoll w r)) r)) = raw (snd (getInitiativeRoll w r))"
  by (simp add: getInitiativeRoll_raw getInitiativeRoll_initFormula)

text \<open>
  C7. \<^verbatim>\<open>Combatant.rollInitiative\<close> hands exactly one change to the host, the field
  \<^verbatim>\<open>initiative\<close> with the result of the formula computed against the actor's property
  bag; the update leaves the property bag and every other field of the combatant as
  they were.
\<close>

theorem Combatant_rollInitiative_frame:
  "\<exists>res. snd (Combatant_rollInitiative formula_compute w c rawFormula) = [(''initiative'', res)] \<and>
      res = formula_compute (raw (snd (getInitiativeRoll w rawFormula))) (actor_props c)
              \<lparr> opt_defaultValue = ''0'', computeExplanation = Some True, reference = None \<rparr> \<and>
      actor_props (update c [(''initiative'', res)]) = actor_props c \<and>
      cid (update c [(''initiative'', res)]) = cid c \<and>
      isOwner (update c [(''initiative'', res)]) = isOwner c \<and>
      hidden (update c [(''initiative'', res)]) = hidden c \<and>
      cname (update c [(''initiative'', res)]) = cname c \<and>
      doc (update c [(''initiative'', res)]) ''initiative'' = Some res \<and>
      (\<forall>k. k \<noteq> ''initiative'' \<longrightarrow> doc (update c [(''initiative'', res)]) k = doc c k)"
  by (simp add: Combatant_rollInitiative_def update_def split: prod.splits)

lemma fighter_roll:
  "snd (Combatant_rollInitiative sample_formula world0 fighter None) = [(''initiative'', JStr ''12'')]"
  by code_simp

theorem Combatant_rollInitiative_frame_witness:
  "snd (Combatant_rollInitiative sample_formula world0 fighter None) =
     [(''initiative'', JStr ''12'')] \<and>
   actor_props (update fighter [(''initiative'', JStr ''12'')]) = actor_props fighter \<and>
   doc (update fighter [(''initiative'', JStr ''12'')]) ''initiative'' = Some (JStr ''12'') \<and>
   doc (update fighter [(''initiative'', JStr ''12'')]) ''img'' = doc fighter ''img''"
  using Combatant_rollInitiative_frame [of sample_formula world0 fighter None] fighter_roll
  by auto

lemma Combatant_rollInitiative_world:
  "fst (Combatant_rollInitiative formula_compute w c rawFormula) = fst (getInitiativeRoll w rawFormula)"
  by (simp add: Combatant_rollInitiative_def split: prod.splits)

lemma roll_each_step:
  assumes "map_of (combatants cb) a = Some c" "isOwner c"
  shows "\<exists>m. roll_each pc cb rawFormula rollMode i (a # l) w us msgs =
           roll_each pc cb rawFormula rollMode (Suc i) l (fst (getInitiativeRoll w rawFormula))
             (us @ [step_update pc cb (raw (snd (getInitiativeRoll w rawFormula))) a]) (msgs @ [m])"
proof -
  obtain w1 f where g: "getInitiativeRoll w rawFormula = (w1, f)"
    by (cases "getInitiativeRoll w rawFormula")
  let ?m = "\<lparr> m_phrase = phrase_of f, m_alias = cname c,
              m_rollMode = (if hidden c \<and> rollMode \<in> set [''roll'', ''publicroll'']
                            then ''gmroll'' else rollMode),
              m_sound = \<not> (0 < i) \<rparr>"
  have "roll_each pc cb rawFormula rollMode i (a # l) w us msgs =
           roll_each pc cb rawFormula rollMode (Suc i) l w1
             (us @ [step_update pc cb (raw f) a]) (msgs @ [?m])"
    using assms g by (simp add: Let_def phrase_of_def step_update_def)
  then show ?thesis using g by auto
qed

lemma roll_each_updates:
  assumes "list_all (owned cb) l"
  shows "\<exists>w' ms. roll_each pc cb rawFormula rollMode i l w us msgs =
           (w', Inr (us @ map (step_update pc cb (raw (snd (getInitiativeRoll w rawFormula)))) l, ms))"
  using assms
proof (induction l arbitrary: i w us msgs)
  case Nil
  then show ?case by simp
next
  case (Cons a l)
  from Cons.prems obtain c where c: "map_of (combatants cb) a = Some c" "isOwner c"
    by (auto simp: owned_def split: option.splits)
  from Cons.prems have l: "list_all (owned cb) l" by simp
  let ?w1 = "fst (getInitiativeRoll w rawFormula)"
  let ?f = "raw (snd (getInitiativeRoll w rawFormula))"
  from roll_each_step[OF c] obtain m where
    st: "roll_each pc cb rawFormula rollMode i (a # l) w us msgs =
           roll_each pc cb rawFormula rollMode (Suc i) l ?w1 (us @ [step_update pc cb ?f a]) (msgs @ [m])"
    by blast
  from Cons.IH[OF l, of "Suc i" ?w1 "us @ [step_update pc cb ?f a]" "msgs @ [m]"]
  show ?case
    unfolding st by (simp add: getInitiativeRoll_raw_same)
qed

lemma roll_each_not_owned:
  assumes "\<not> list_all (owned cb) l"
  shows "\<exists>w'. roll_each pc cb rawFormula rollMode i l w us msgs =
           (w', Inl (ReferenceError ''results is not defined''))"
  using assms
proof (induction l arbitrary: i w us msgs)
  case Nil
  then show ?case by simp
next
  case (Cons a l)
  show ?case
  proof (cases "owned cb a")
    case True
    then obtain c where c: "map_of (combatants cb) a = Some c" "isOwner c"
      by (auto simp: owned_def split: option.splits)
    from True Cons.prems have l: "\<not> list_all (owned cb) l" by simp
    from roll_each_step[OF c] obtain m where
      st: "roll_each pc cb rawFormula rollMode i (a # l) w us msgs =
           roll_each pc cb rawFormula rollMode (Suc i) l (fst (getInitiativeRoll w rawFormula))
             (us @ [step_update pc cb (raw (snd (getInitiativeRoll w rawFormula))) a]) (msgs @ [m])"
      by blast
    show ?thesis unfolding st using Cons.IH[OF l] by blast
  next
    case False
    then show ?thesis by (auto simp: owned_def split: option.splits)
  qed
qed

text \<open>
  C6, the claim as stated fails: the close marker that \<^verbatim>\<open>Combat.rollInitiative\<close> puts
  after the raw formula has two characters, not one.
\<close>

theorem close_marker_two_characters:
  "length close_marker \<noteq> 1 \<and> length close_marker = 2 \<and>
   phrase_of \<lparr> raw = ''1d20'' \<rparr> = ''${1d20}$''"
  by (simp add: close_marker_def open_marker_def phrase_of_def)

text \<open>
  C6, as amended. The open marker and the close marker have two characters each, and
  when every id names a combatant that is present and owned, \<^verbatim>\<open>Combat.rollInitiative\<close>
  returns with one update for each id, in order, whose initiative is the result of
  computing the phrase '${' + f + '}$' against that combatant's property bag, where
  \<open>f\<close> is the raw formula of \<^verbatim>\<open>getInitiativeRoll\<close>.
\<close>

theorem Combat_rollInitiative_phrase:
  "length open_marker = 2 \<and> length close_marker = 2 \<and>
   (list_all (owned cb) (ids_list idsArg) \<longrightarrow>
     (\<exists>w' res. Combat_rollInitiative pc w cb idsArg rawFormula updateTurn msgRollMode = (w', Inr res) \<and>
        embedded_updates res =
          map (\<lambda>x. \<lparr> u_id = x, u_initiative =
                 pc (''${'' @ raw (snd (getInitiativeRoll w rawFormula)) @ ''}$'')
                    (actor_props (the (map_of (combatants cb) x)))
                    \<lparr> opt_defaultValue = ''0'', computeExplanation = Some True, reference = None \<rparr> \<rparr>)
              (ids_list idsArg)))"
proof -
  have "length open_marker = 2" "length close_marker = 2"
    by (simp_all add: open_marker_def close_marker_def)
  moreover
  { assume a: "list_all (owned cb) (ids_list idsArg)"
    let ?rm = "or_else (case msgRollMode of None \<Rightarrow> [] | Some m \<Rightarrow> m) (core_rollMode w)"
    from roll_each_updates[OF a, of pc rawFormula ?rm 0 w "[]" "[]"]
    obtain w' ms where r: "roll_each pc cb rawFormula ?rm 0 (ids_list idsArg) w [] [] =
           (w', Inr (map (step_update pc cb (raw (snd (getInitiativeRoll w rawFormula)))) (ids_list idsArg), ms))"
      by auto
    have "\<exists>w' res. Combat_rollInitiative pc w cb idsArg rawFormula updateTurn msgRollMode = (w', Inr res) \<and>
        embedded_updates res =
          map (\<lambda>x. \<lparr> u_id = x, u_initiative =
                 pc (''${'' @ raw (snd (getInitiativeRoll w rawFormula)) @ ''}$'')
                    (actor_props (the (map_of (combatants cb) x)))
                    \<lparr> opt_defaultValue = ''0'', computeExplanation = Some True, reference = None \<rparr> \<rparr>)
              (ids_list idsArg)"
      using r
      by (auto simp add: Combat_rollInitiative_def Let_def step_update_def open_marker_def
          close_marker_def)
  }
  ultimately show ?thesis by blast
qed

lemma combat0_roll:
  "list_all (owned combat0) (ids_list (ManyIds [''c1'', ''c2'']))"
  "snd (Combat_rollInitiative sample_phrase world0 combat0 (ManyIds [''c1'', ''c2'']) None True None) =
     Inr \<lparr> embedded_updates =
             [\<lparr> u_id = ''c1'', u_initiative = JStr ''12'' \<rparr>,
              \<lparr> u_id = ''c2'', u_initiative = JStr ''14'' \<rparr>],
           turn_update = Some 1,
           created_messages =
             [\<lparr> m_phrase = ''${2d6+dex}$'', m_alias = ''Fighter'', m_rollMode = ''publicroll'',
                m_sound = True \<rparr>,
              \<lparr> m_phrase = ''${2d6+dex}$'', m_alias = ''Rogue'', m_rollMode = ''gmroll'',
                m_sound = False \<rparr>] \<rparr>"
  "sample_phrase ''${2d6+dex}$'' (actor_props rogue) opts0 = JStr ''14''"
  by code_simp+

theorem Combat_rollInitiative_phrase_witness:
  "list_all (owned combat0) (ids_list (ManyIds [''c1'', ''c2''])) \<and>
   (case snd (Combat_rollInitiative sample_phrase world0 combat0 (ManyIds [''c1'', ''c2''])
               None True None) of
      Inl e \<Rightarrow> False
    | Inr res \<Rightarrow>
        embedded_updates res =
          [\<lparr> u_id = ''c1'', u_initiative = JStr ''12'' \<rparr>,
           \<lparr> u_id = ''c2'', u_initiative = JStr ''14'' \<rparr>])"
  using Combat_rollInitiative_phrase
          [of combat0 "ManyIds [''c1'', ''c2'']" sample_phrase world0 None True None]
    combat0_roll
  by simp

lemma Combat_rollInitiative_not_owned:
  assumes "\<not> list_all (owned cb) (ids_list idsArg)"
  shows "\<exists>w'. Combat_rollInitiative pc w cb idsArg rawFormula updateTurn msgRollMode =
           (w', Inl (ReferenceError ''results is not defined''))"
proof -
  let ?rm = "or_else (case msgRollMode of None \<Rightarrow> [] | Some m \<Rightarrow> m) (core_rollMode w)"
  from roll_each_not_owned[OF assms, of pc rawFormula ?rm 0 w "[]" "[]"]
  obtain w' where "roll_each pc cb rawFormula ?rm 0 (ids_list idsArg) w [] [] =
      (w', Inl (ReferenceError ''results is not defined''))"
    by blast
  then show ?thesis by (simp add: Combat_rollInitiative_def Let_def)
qed

section \<open>The formula engine: theorems\<close>

lemma split_at_Some:
  "split_at m s = Some (pre, post) \<Longrightarrow> s = pre @ m @ post"
proof (induction s arbitrary: pre post)
  case Nil
  then show ?case by simp
next
  case (Cons c cs)
  show ?case
  proof (cases "startsWith (c # cs) m")
    case True
    with Cons.prems have "pre = []" "post = drop (length m) (c # cs)" by auto
    moreover from True have "c # cs = m @ drop (length m) (c # cs)"
      unfolding startsWith_def by (metis append_take_drop_id)
    ultimately show ?thesis by simp
  next
    case False
    with Cons.prems obtain pre' where p: "split_at m cs = Some (pre', post)" "pre = c # pre'"
      by (auto split: option.splits)
    from Cons.IH[OF p(1)] p(2) show ?thesis by simp
  qed
qed

lemma split_at_None:
  "split_at m s = None \<Longrightarrow> m \<noteq> [] \<Longrightarrow> s \<noteq> pre @ m @ post"
proof (induction s arbitrary: pre)
  case Nil
  then show ?case by simp
next
  case (Cons c cs)
  from Cons.prems have ns: "\<not> startsWith (c # cs) m" and r: "split_at m cs = None"
    by (auto split: if_splits option.splits)
  show ?case
  proof (cases pre)
    case Nil
    show ?thesis
    proof
      assume "c # cs = pre @ m @ post"
      with Nil have "startsWith (c # cs) m" by (simp add: startsWith_def)
      with ns show False by simp
    qed
  next
    case (Cons p ps)
    from Cons.IH[OF r Cons.prems(2), of ps] Cons show ?thesis by auto
  qed
qed

text \<open>\<open>contains s m\<close> says that the marker occurs somewhere in the string.\<close>

lemma contains_iff:
  "m \<noteq> [] \<Longrightarrow> contains s m \<longleftrightarrow> (\<exists>pre post. s = pre @ m @ post)"
  unfolding contains_def
  by (metis split_at_None split_at_Some not_Some_eq prod.exhaust)

lemma scan_no_marker: "\<not> contains s open_marker \<Longrightarrow> scan s = [Text s]"
  by (subst scan.simps) (auto simp add: contains_def split: option.splits)

text \<open>
  C4. For a formula that contains no open marker, \<^verbatim>\<open>compute\<close> returns the input string
  as the result and an empty explanation (no explanation at all when none was
  requested), and uses no randomness.
\<close>

theorem compute_literal_unchanged:
  assumes "\<not> contains rawFormula open_marker"
  shows "compute E rawFormula bag opts g =
           (\<lparr> result = rawFormula,
              explanation = (if computeExplanation opts = Some True then Some [] else None) \<rparr>, g)"
  using assms by (simp add: compute_def parse_def scan_no_marker)

lemma plain_text: "\<not> contains ''Strength: 12 $ {x}'' open_marker"
  by code_simp

theorem compute_literal_unchanged_witness:
  "\<not> contains ''Strength: 12 $ {x}'' open_marker \<and>
   compute sample_env ''Strength: 12 $ {x}'' bag_hp opts0 [4, 5] =
     (\<lparr> result = ''Strength: 12 $ {x}'', explanation = Some [] \<rparr>, [4, 5])"
  using compute_literal_unchanged [of "''Strength: 12 $ {x}''" sample_env bag_hp opts0 "[4, 5]"]
    plain_text
  by (simp add: opts0_def)

lemma table_lookup_below: "list_all (\<lambda>(t, v). k < t) rows \<Longrightarrow> table_lookup rows k = None"
  by (cases rows) auto

lemma those_opt_None: "list_ex (\<lambda>v. p v = None) vs \<Longrightarrow> those_opt (map p vs) = None"
proof (induction vs)
  case Nil
  then show ?case by simp
next
  case (Cons v vs)
  then show ?case by (cases "p v") (auto split: option.splits)
qed

lemma builtin_non_numeric:
  "f \<noteq> ''if'' \<Longrightarrow> list_ex (\<lambda>v. numeric E v = None) vs \<Longrightarrow> builtin E f vs = None"
  by (simp add: builtin_def those_opt_None)

lemma eval_failure:
  "failure_of C d e g \<noteq> None \<Longrightarrow> out (eval C d e g) = VStr (opt_defaultValue (c_opts C))"
proof (cases e)
  case (Neg e1)
  assume "failure_of C d e g \<noteq> None"
  then show ?thesis unfolding Neg
    by (auto simp add: Let_def or_default_def split: option.splits if_splits)
next
  case (Bin bop e1 e2)
  assume "failure_of C d e g \<noteq> None"
  then show ?thesis
    unfolding Bin
    by (cases bop) (auto simp add: Let_def arith_def or_default_def split: option.splits if_splits)
next
  case (Call f args)
  assume "failure_of C d e g \<noteq> None"
  then show ?thesis
    unfolding Call
    by (auto simp add: Let_def or_default_def builtin_non_numeric split: option.splits if_splits)
next
  case (Table k rows)
  assume "failure_of C d e g \<noteq> None"
  then show ?thesis
    unfolding Table
    by (auto simp add: Let_def or_default_def table_lookup_below split: option.splits if_splits)
next
  case (Ref path fb)
  assume "failure_of C d e g \<noteq> None"
  then show ?thesis
    unfolding Ref
    by (cases fb) (auto simp add: Let_def split: option.splits if_splits)
qed simp_all

lemma evals_append:
  "out (evals C d (xs @ ys) g) = out (evals C d xs g) @ out (evals C d ys (rng (evals C d xs g)))"
  "rng (evals C d (xs @ ys) g) = rng (evals C d ys (rng (evals C d xs g)))"
  by (induction xs arbitrary: g) (simp_all add: Let_def)

lemma eval_path_append:
  "out (eval_path C d (xs @ ys) g) =
     out (eval_path C d xs g) @ out (eval_path C d ys (rng (eval_path C d xs g)))"
  "rng (eval_path C d (xs @ ys) g) = rng (eval_path C d ys (rng (eval_path C d xs g)))"
proof (induction xs arbitrary: g)
  case Nil
  { case 1 show ?case by simp }
  { case 2 show ?case by simp }
next
  case (Cons x xs)
  { case 1 show ?case using Cons by (cases x) (simp_all add: Let_def) }
  { case 2 show ?case using Cons by (cases x) (simp_all add: Let_def) }
qed

lemma eval_segments_append:
  "out (eval_segments C d (xs @ ys) g) =
     out (eval_segments C d xs g) @ out (eval_segments C d ys (rng (eval_segments C d xs g)))"
  "rng (eval_segments C d (xs @ ys) g) =
     rng (eval_segments C d ys (rng (eval_segments C d xs g)))"
proof (induction xs arbitrary: g)
  case Nil
  { case 1 show ?case by simp }
  { case 2 show ?case by simp }
next
  case (Cons x xs)
  { case 1 show ?case using Cons by (cases x) (simp_all add: Let_def) }
  { case 2 show ?case using Cons by (cases x) (simp_all add: Let_def) }
qed


lemma plug_cong:
  "reach C d K g = Some g0 \<Longrightarrow>
   out (eval C d f' g0) = out (eval C d f g0) \<Longrightarrow>
   rng (eval C d f' g0) = rng (eval C d f g0) \<Longrightarrow>
   out (eval C d (plug K f') g) = out (eval C d (plug K f) g) \<and>
   rng (eval C d (plug K f') g) = rng (eval C d (plug K f) g)"
proof (induction K arbitrary: g)
  case Hole
  then show ?case by simp
next
  case (InNeg K)
  then show ?case by (simp add: Let_def)
next
  case (InBinL bop K e2)
  then show ?case by (simp add: Let_def)
next
  case (InBinR bop e1 K)
  then show ?case by (simp add: Let_def)
next
  case (InCall fn pre K post)
  from InCall.prems have r: "reach C d K (rng (evals C d pre g)) = Some g0" by simp
  note ih = InCall.IH [OF r InCall.prems(2) InCall.prems(3)]
  have "out (evals C d (pre @ plug K f' # post) g) = out (evals C d (pre @ plug K f # post) g) \<and>
        rng (evals C d (pre @ plug K f' # post) g) = rng (evals C d (pre @ plug K f # post) g)"
    using ih by (simp add: evals_append Let_def)
  then show ?case by (simp add: Let_def)
next
  case (InTable K rows)
  then show ?case by (simp add: Let_def)
next
  case (InFallback path K)
  from InFallback.prems have n: "resolve (c_bag C) (out (eval_path C d path g)) = None"
    and r: "reach C d K (rng (eval_path C d path g)) = Some g0"
    by (simp_all add: Let_def split: if_splits)
  note ih = InFallback.IH [OF r InFallback.prems(2) InFallback.prems(3)]
  show ?case using n ih by (simp add: Let_def)
next
  case (InPath pre K post fb)
  from InPath.prems have r: "reach C d K (rng (eval_path C d pre g)) = Some g0" by simp
  note ih = InPath.IH [OF r InPath.prems(2) InPath.prems(3)]
  have p: "out (eval_path C d (pre @ Dyn (plug K f') # post) g) =
           out (eval_path C d (pre @ Dyn (plug K f) # post) g) \<and>
        rng (eval_path C d (pre @ Dyn (plug K f') # post) g) =
           rng (eval_path C d (pre @ Dyn (plug K f) # post) g)"
    using ih by (simp add: eval_path_append Let_def)
  show ?case
    using p
    by (auto simp add: Let_def split: option.splits pvalue.splits nat.splits)
qed

lemma eval_segments_cong:
  "reach C d K (rng (eval_segments C d pre g)) = Some g0 \<Longrightarrow>
   out (eval C d f' g0) = out (eval C d f g0) \<Longrightarrow>
   rng (eval C d f' g0) = rng (eval C d f g0) \<Longrightarrow>
   out (eval_segments C d (pre @ Expression (plug K f') # post) g) =
     out (eval_segments C d (pre @ Expression (plug K f) # post) g) \<and>
   rng (eval_segments C d (pre @ Expression (plug K f') # post) g) =
     rng (eval_segments C d (pre @ Expression (plug K f) # post) g)"
  using plug_cong [of C d K "rng (eval_segments C d pre g)" g0 f' f]
  by (simp add: eval_segments_append Let_def)

lemma eval_segments_Cons:
  "out (eval_segments C d (s # ss) g) =
     out (eval_segments C d [s] g) @ out (eval_segments C d ss (rng (eval_segments C d [s] g)))"
  "rng (eval_segments C d (s # ss) g) = rng (eval_segments C d ss (rng (eval_segments C d [s] g)))"
  using eval_segments_append [of C d "[s]" ss g] by simp_all

lemma segments_decompose:
  "\<exists>gs. length gs = Suc (length ss) \<and> gs ! 0 = g \<and>
     (\<forall>i<length ss. gs ! Suc i = rng (eval_segments C d [ss ! i] (gs ! i))) \<and>
     out (eval_segments C d ss g) =
       concat (map (\<lambda>i. out (eval_segments C d [ss ! i] (gs ! i))) [0..<length ss]) \<and>
     rng (eval_segments C d ss g) = gs ! length ss"
proof (induction ss arbitrary: g)
  case Nil
  show ?case by (rule exI [of _ "[g]"]) simp
next
  case (Cons s ss)
  let ?g1 = "rng (eval_segments C d [s] g)"
  from Cons [of ?g1] obtain gs where
    l: "length gs = Suc (length ss)" and z: "gs ! 0 = ?g1" and
    st: "\<forall>i<length ss. gs ! Suc i = rng (eval_segments C d [ss ! i] (gs ! i))" and
    o: "out (eval_segments C d ss ?g1) =
          concat (map (\<lambda>i. out (eval_segments C d [ss ! i] (gs ! i))) [0..<length ss])" and
    r: "rng (eval_segments C d ss ?g1) = gs ! length ss"
    by blast
  have st': "\<forall>i<length (s # ss).
      (g # gs) ! Suc i = rng (eval_segments C d [(s # ss) ! i] ((g # gs) ! i))"
  proof (intro allI impI)
    fix i assume "i < length (s # ss)"
    then show "(g # gs) ! Suc i = rng (eval_segments C d [(s # ss) ! i] ((g # gs) ! i))"
      using z st by (cases i) simp_all
  qed
  have m: "map (\<lambda>i. out (eval_segments C d [(s # ss) ! i] ((g # gs) ! i))) [0..<length (s # ss)] =
        out (eval_segments C d [s] g) #
        map (\<lambda>i. out (eval_segments C d [ss ! i] (gs ! i))) [0..<length ss]"
  proof -
    have "[0..<length (s # ss)] = 0 # map Suc [0..<length ss]"
      by (simp only: length_Cons map_Suc_upt upt_conv_Cons [OF zero_less_Suc])
    then show ?thesis by (simp add: comp_def)
  qed
  have o': "out (eval_segments C d (s # ss) g) =
      concat (map (\<lambda>i. out (eval_segments C d [(s # ss) ! i] ((g # gs) ! i))) [0..<length (s # ss)])"
    unfolding m using o eval_segments_Cons(1) [of C d s ss g] by simp
  have r': "rng (eval_segments C d (s # ss) g) = (g # gs) ! length (s # ss)"
    using r eval_segments_Cons(2) [of C d s ss g] by simp
  show ?case
    apply (rule exI [of _ "g # gs"])
    using l st' o' r' by simp
qed


lemma single_segment:
  "out (eval_segments C d [Literal t] g) = t"
  "rng (eval_segments C d [Literal t] g) = g"
  "out (eval_segments C d [Malformed t] g) = t"
  "rng (eval_segments C d [Malformed t] g) = g"
  "out (eval_segments C d [Expression e] g) = stringify (c_engine C) (out (eval C d e g))"
  "rng (eval_segments C d [Expression e] g) = rng (eval C d e g)"
  by (simp_all add: Let_def)

lemma nested_formula:
  "resolve (c_bag C) (out (eval_path C (Suc d) path g)) = Some (VStr s) \<Longrightarrow> has_formula s \<Longrightarrow>
   out (eval C (Suc d) (Ref path fb) g) =
     VStr (out (eval_segments C d (parse (c_engine C) s) (rng (eval_path C (Suc d) path g))))"
  by (simp add: Let_def)

lemma table_lookup_sorted:
  "sorted (map fst rows) \<Longrightarrow>
   table_lookup rows k = None \<longleftrightarrow> list_all (\<lambda>(t, v). k < t) rows"
proof (cases rows)
  case Nil
  then show ?thesis by simp
next
  case (Cons row rest)
  assume s: "sorted (map fst rows)"
  obtain t v where row: "row = (t, v)" by (cases row)
  from s have le: "\<forall>x\<in>set rest. t \<le> fst x" by (simp add: Cons row)
  have "table_lookup rows k = None \<longleftrightarrow> k < t"
    by (auto simp add: Cons row split: option.splits)
  moreover have "list_all (\<lambda>(t, v). k < t) rows \<longleftrightarrow> k < t"
    using le by (fastforce simp add: Cons row list_all_iff)
  ultimately show ?thesis by simp
qed

lemma fails_iff:
  "fails C d (Neg e) g \<longleftrightarrow> numeric (c_engine C) (out (eval C d e g)) = None"
  "fails C d (Bin bop e1 e2) g \<longleftrightarrow>
     arith (c_engine C) bop (out (eval C d e1 g)) (out (eval C d e2 (rng (eval C d e1 g)))) = None"
  "fails C d (Call f args) g \<longleftrightarrow> builtin (c_engine C) f (out (evals C d args g)) = None"
  "fails C d (Ref path None) g \<longleftrightarrow> resolve (c_bag C) (out (eval_path C d path g)) = None"
  "sorted (map fst rows) \<Longrightarrow>
   fails C d (Table k rows) g \<longleftrightarrow>
     (case numeric (c_engine C) (out (eval C d k g)) of
        None \<Rightarrow> True
      | Some r \<Rightarrow> table_lookup rows r = None)"
proof -
  show "fails C d (Neg e) g \<longleftrightarrow> numeric (c_engine C) (out (eval C d e g)) = None"
    by (simp add: fails_def)
  show "fails C d (Bin bop e1 e2) g \<longleftrightarrow>
     arith (c_engine C) bop (out (eval C d e1 g)) (out (eval C d e2 (rng (eval C d e1 g)))) = None"
    by (cases bop) (auto simp add: fails_def Let_def arith_def split: option.splits)
  show "fails C d (Call f args) g \<longleftrightarrow> builtin (c_engine C) f (out (evals C d args g)) = None"
    by (auto simp add: fails_def Let_def builtin_non_numeric)
  show "fails C d (Ref path None) g \<longleftrightarrow> resolve (c_bag C) (out (eval_path C d path g)) = None"
    by (simp add: fails_def)
  show "sorted (map fst rows) \<Longrightarrow>
   fails C d (Table k rows) g \<longleftrightarrow>
     (case numeric (c_engine C) (out (eval C d k g)) of
        None \<Rightarrow> True
      | Some r \<Rightarrow> table_lookup rows r = None)"
    by (simp add: fails_def table_lookup_sorted split: option.splits)
qed

text \<open>
  C3. \<^verbatim>\<open>compute\<close> has no error among its results, and what an operation reports as a
  failure does not leave the operation: the configured default value stands in for it.
  For every raw formula, property bag, options and randomness source:

  \<^enum> the result is the concatenation, in their order, of what each segment of the
    formula gives, each evaluated from the randomness source that the segment before it
    has left, and the source that is returned is the one the last segment has left;

  \<^enum> a literal text and a malformed span give their text, an expression gives the text
    of its value;

  \<^enum> at every depth, an operation that fails has the default value as its value: a
    division by zero; unary minus, an arithmetic operator, an ordering comparison or a
    numeric built-in with an operand that is no number; a table lookup with a key below
    every threshold; a call that is no call of a built-in; a reference to a missing
    property with no fallback;

  \<^enum> when such an operation stands anywhere inside an expression of the formula and is
    evaluated, the result is the result of the formula that has in its place an
    expression whose value there is the default value and that leaves the same
    randomness source, which the literal of the default value is when the operands
    of the operation roll no dice;

  \<^enum> a reference to a property whose value is a formula has for value the text that this
    formula gives one level down;

  \<^enum> and there, as at every depth and for every list of segments, a failing operation
    inside an expression counts as in the fourth point;

  \<^enum> the failures of the third point are all the cases in which one of these operations
    has no value of its own, for a table whose rows are in the order of their thresholds.
\<close>

theorem compute_degrades_to_default:
  "let C = \<lparr> c_engine = E, c_bag = bag, c_opts = opts \<rparr>;
       dv = VStr (opt_defaultValue opts);
       segs = parse E rawFormula;
       n = length segs
   in (\<exists>gs. length gs = Suc n \<and> gs ! 0 = g \<and>
         (\<forall>i<n. gs ! Suc i = rng (eval_segments C recursion_bound [segs ! i] (gs ! i))) \<and>
         result (fst (compute E rawFormula bag opts g)) =
           concat (map (\<lambda>i. out (eval_segments C recursion_bound [segs ! i] (gs ! i))) [0..<n]) \<and>
         snd (compute E rawFormula bag opts g) = gs ! n) \<and>
      (\<forall>d t e g0.
         out (eval_segments C d [Literal t] g0) = t \<and>
         rng (eval_segments C d [Literal t] g0) = g0 \<and>
         out (eval_segments C d [Malformed t] g0) = t \<and>
         rng (eval_segments C d [Malformed t] g0) = g0 \<and>
         out (eval_segments C d [Expression e] g0) = stringify E (out (eval C d e g0)) \<and>
         rng (eval_segments C d [Expression e] g0) = rng (eval C d e g0)) \<and>
      (\<forall>d e g0. fails C d e g0 \<longrightarrow> out (eval C d e g0) = dv) \<and>
      (\<forall>pre K f post g0 f'.
         segs = pre @ Expression (plug K f) # post \<and>
         reach C recursion_bound K (rng (eval_segments C recursion_bound pre g)) = Some g0 \<and>
         fails C recursion_bound f g0 \<and>
         out (eval C recursion_bound f' g0) = dv \<and>
         rng (eval C recursion_bound f' g0) = rng (eval C recursion_bound f g0) \<longrightarrow>
         result (fst (compute E rawFormula bag opts g)) =
           out (eval_segments C recursion_bound (pre @ Expression (plug K f') # post) g) \<and>
         snd (compute E rawFormula bag opts g) =
           rng (eval_segments C recursion_bound (pre @ Expression (plug K f') # post) g)) \<and>
      (\<forall>d path fb s g0.
         resolve bag (out (eval_path C (Suc d) path g0)) = Some (VStr s) \<and> has_formula s \<longrightarrow>
         out (eval C (Suc d) (Ref path fb) g0) =
           VStr (out (eval_segments C d (parse E s) (rng (eval_path C (Suc d) path g0))))) \<and>
      (\<forall>d pre K f post g1 g0 f'.
         reach C d K (rng (eval_segments C d pre g1)) = Some g0 \<and>
         fails C d f g0 \<and>
         out (eval C d f' g0) = dv \<and>
         rng (eval C d f' g0) = rng (eval C d f g0) \<longrightarrow>
         out (eval_segments C d (pre @ Expression (plug K f) # post) g1) =
           out (eval_segments C d (pre @ Expression (plug K f') # post) g1)) \<and>
      (\<forall>d e bop e1 e2 fn args path k rows g0.
         (fails C d (Neg e) g0 \<longleftrightarrow> numeric E (out (eval C d e g0)) = None) \<and>
         (fails C d (Bin bop e1 e2) g0 \<longleftrightarrow>
            arith E bop (out (eval C d e1 g0)) (out (eval C d e2 (rng (eval C d e1 g0)))) = None) \<and>
         (fails C d (Call fn args) g0 \<longleftrightarrow> builtin E fn (out (evals C d args g0)) = None) \<and>
         (fails C d (Ref path None) g0 \<longleftrightarrow> resolve bag (out (eval_path C d path g0)) = None) \<and>
         (sorted (map fst rows) \<longrightarrow>
            (fails C d (Table k rows) g0 \<longleftrightarrow>
               (case numeric E (out (eval C d k g0)) of
                  None \<Rightarrow> True
                | Some r \<Rightarrow> table_lookup rows r = None))))"
proof -
  let ?C = "\<lparr> c_engine = E, c_bag = bag, c_opts = opts \<rparr>"
  let ?dv = "VStr (opt_defaultValue opts)"
  let ?segs = "parse E rawFormula"
  have c: "result (fst (compute E rawFormula bag opts g)) = out (eval_segments ?C recursion_bound ?segs g)"
      "snd (compute E rawFormula bag opts g) = rng (eval_segments ?C recursion_bound ?segs g)"
    by (simp_all add: compute_def Let_def)
  have p1: "\<exists>gs. length gs = Suc (length ?segs) \<and> gs ! 0 = g \<and>
         (\<forall>i<length ?segs. gs ! Suc i = rng (eval_segments ?C recursion_bound [?segs ! i] (gs ! i))) \<and>
         result (fst (compute E rawFormula bag opts g)) =
           concat (map (\<lambda>i. out (eval_segments ?C recursion_bound [?segs ! i] (gs ! i)))
                     [0..<length ?segs]) \<and>
         snd (compute E rawFormula bag opts g) = gs ! length ?segs"
    unfolding c by (rule segments_decompose)
  have p2: "\<forall>d t e g0.
         out (eval_segments ?C d [Literal t] g0) = t \<and>
         rng (eval_segments ?C d [Literal t] g0) = g0 \<and>
         out (eval_segments ?C d [Malformed t] g0) = t \<and>
         rng (eval_segments ?C d [Malformed t] g0) = g0 \<and>
         out (eval_segments ?C d [Expression e] g0) = stringify E (out (eval ?C d e g0)) \<and>
         rng (eval_segments ?C d [Expression e] g0) = rng (eval ?C d e g0)"
    by (simp add: Let_def)
  have f: "\<And>d e g0. fails ?C d e g0 \<Longrightarrow> out (eval ?C d e g0) = ?dv"
    using eval_failure [of ?C] by (simp add: fails_def)
  have p3: "\<forall>d e g0. fails ?C d e g0 \<longrightarrow> out (eval ?C d e g0) = ?dv"
    using f by blast
  have g: "\<And>d pre K f post g1 g0 f'.
         reach ?C d K (rng (eval_segments ?C d pre g1)) = Some g0 \<Longrightarrow>
         fails ?C d f g0 \<Longrightarrow>
         out (eval ?C d f' g0) = ?dv \<Longrightarrow>
         rng (eval ?C d f' g0) = rng (eval ?C d f g0) \<Longrightarrow>
         out (eval_segments ?C d (pre @ Expression (plug K f) # post) g1) =
           out (eval_segments ?C d (pre @ Expression (plug K f') # post) g1) \<and>
         rng (eval_segments ?C d (pre @ Expression (plug K f) # post) g1) =
           rng (eval_segments ?C d (pre @ Expression (plug K f') # post) g1)"
  proof -
    fix d pre K f post g1 g0 f'
    assume r: "reach ?C d K (rng (eval_segments ?C d pre g1)) = Some g0"
      and fl: "fails ?C d f g0"
      and o: "out (eval ?C d f' g0) = ?dv"
      and s: "rng (eval ?C d f' g0) = rng (eval ?C d f g0)"
    from f [OF fl] o have o': "out (eval ?C d f' g0) = out (eval ?C d f g0)" by simp
    from eval_segments_cong [OF r o' s, of post]
    show "out (eval_segments ?C d (pre @ Expression (plug K f) # post) g1) =
           out (eval_segments ?C d (pre @ Expression (plug K f') # post) g1) \<and>
         rng (eval_segments ?C d (pre @ Expression (plug K f) # post) g1) =
           rng (eval_segments ?C d (pre @ Expression (plug K f') # post) g1)"
      by simp
  qed
  have p4: "\<forall>pre K f post g0 f'.
         ?segs = pre @ Expression (plug K f) # post \<and>
         reach ?C recursion_bound K (rng (eval_segments ?C recursion_bound pre g)) = Some g0 \<and>
         fails ?C recursion_bound f g0 \<and>
         out (eval ?C recursion_bound f' g0) = ?dv \<and>
         rng (eval ?C recursion_bound f' g0) = rng (eval ?C recursion_bound f g0) \<longrightarrow>
         result (fst (compute E rawFormula bag opts g)) =
           out (eval_segments ?C recursion_bound (pre @ Expression (plug K f') # post) g) \<and>
         snd (compute E rawFormula bag opts g) =
           rng (eval_segments ?C recursion_bound (pre @ Expression (plug K f') # post) g)"
    unfolding c using g [of recursion_bound _ _ g] by metis
  have p5: "\<forall>d path fb s g0.
         resolve bag (out (eval_path ?C (Suc d) path g0)) = Some (VStr s) \<and> has_formula s \<longrightarrow>
         out (eval ?C (Suc d) (Ref path fb) g0) =
           VStr (out (eval_segments ?C d (parse E s) (rng (eval_path ?C (Suc d) path g0))))"
    using nested_formula [of ?C] by simp
  have p6: "\<forall>d pre K f post g1 g0 f'.
         reach ?C d K (rng (eval_segments ?C d pre g1)) = Some g0 \<and>
         fails ?C d f g0 \<and>
         out (eval ?C d f' g0) = ?dv \<and>
         rng (eval ?C d f' g0) = rng (eval ?C d f g0) \<longrightarrow>
         out (eval_segments ?C d (pre @ Expression (plug K f) # post) g1) =
           out (eval_segments ?C d (pre @ Expression (plug K f') # post) g1)"
    using g by blast
  have p7: "\<forall>d e bop e1 e2 fn args path k rows g0.
         (fails ?C d (Neg e) g0 \<longleftrightarrow> numeric E (out (eval ?C d e g0)) = None) \<and>
         (fails ?C d (Bin bop e1 e2) g0 \<longleftrightarrow>
            arith E bop (out (eval ?C d e1 g0)) (out (eval ?C d e2 (rng (eval ?C d e1 g0)))) = None) \<and>
         (fails ?C d (Call fn args) g0 \<longleftrightarrow> builtin E fn (out (evals ?C d args g0)) = None) \<and>
         (fails ?C d (Ref path None) g0 \<longleftrightarrow> resolve bag (out (eval_path ?C d path g0)) = None) \<and>
         (sorted (map fst rows) \<longrightarrow>
            (fails ?C d (Table k rows) g0 \<longleftrightarrow>
               (case numeric E (out (eval ?C d k g0)) of
                  None \<Rightarrow> True
                | Some r \<Rightarrow> table_lookup rows r = None)))"
    using fails_iff [where C = ?C] by simp
  from p1 p2 p3 p4 p5 p6 p7 show ?thesis
    unfolding Let_def by (intro conjI)
qed

text \<open>
  On the sample engine, with the default value \<^verbatim>\<open>0\<close> and a property bag in which
  \<^verbatim>\<open>name\<close> is the text \<^verbatim>\<open>x\<close> and \<^verbatim>\<open>a\<close> the formula \<^verbatim>\<open>${2/0}$\<close>: the formula
  \<^verbatim>\<open>A ${1 + 2/0}$ B ${-name}$\<close> gives \<^verbatim>\<open>A 1 B 0\<close>, the division by zero counting as 0 in
  the sum; a unary minus, a call of \<^verbatim>\<open>max\<close> and a product on a text that is no number,
  and a table lookup below the first threshold give the default value; and the
  reference to \<^verbatim>\<open>a\<close> gives it through the nested formula.
\<close>

lemma degraded_samples:
  "parse sample_env ''A ${1 + 2/0}$ B ${-name}$'' =
     [Literal ''A ''] @
     Expression (plug (InBinR Add (Lit (VNum 1)) Hole) (Bin Div (Lit (VNum 2)) (Lit (VNum 0)))) #
     [Literal '' B '', Expression (Neg (Ref [Key ''name''] None)), Literal []]"
  "reach \<lparr> c_engine = sample_env, c_bag = bag_name, c_opts = opts0 \<rparr> recursion_bound
     (InBinR Add (Lit (VNum 1)) Hole)
     (rng (eval_segments \<lparr> c_engine = sample_env, c_bag = bag_name, c_opts = opts0 \<rparr>
        recursion_bound [Literal ''A ''] [])) = Some []"
  "fails \<lparr> c_engine = sample_env, c_bag = bag_name, c_opts = opts0 \<rparr> recursion_bound
     (Bin Div (Lit (VNum 2)) (Lit (VNum 0))) []"
  "out (eval \<lparr> c_engine = sample_env, c_bag = bag_name, c_opts = opts0 \<rparr> recursion_bound
     (Lit (VStr ''0'')) []) = VStr (opt_defaultValue opts0)"
  "rng (eval \<lparr> c_engine = sample_env, c_bag = bag_name, c_opts = opts0 \<rparr> recursion_bound
     (Lit (VStr ''0'')) []) =
   rng (eval \<lparr> c_engine = sample_env, c_bag = bag_name, c_opts = opts0 \<rparr> recursion_bound
     (Bin Div (Lit (VNum 2)) (Lit (VNum 0))) [])"
  "out (eval_segments \<lparr> c_engine = sample_env, c_bag = bag_name, c_opts = opts0 \<rparr> recursion_bound
     ([Literal ''A ''] @
      Expression (plug (InBinR Add (Lit (VNum 1)) Hole) (Lit (VStr ''0''))) #
      [Literal '' B '', Expression (Neg (Ref [Key ''name''] None)), Literal []]) []) = ''A 1 B 0''"
  "fails \<lparr> c_engine = sample_env, c_bag = bag_name, c_opts = opts0 \<rparr> recursion_bound
     (Neg (Ref [Key ''name''] None)) []"
  "fails \<lparr> c_engine = sample_env, c_bag = bag_name, c_opts = opts0 \<rparr> recursion_bound
     (Call ''max'' [Lit (VNum 1), Ref [Key ''name''] None]) []"
  "fails \<lparr> c_engine = sample_env, c_bag = bag_name, c_opts = opts0 \<rparr> recursion_bound
     (Bin Mul (Lit (VStr ''abc'')) (Lit (VNum 2))) []"
  "fails \<lparr> c_engine = sample_env, c_bag = bag_name, c_opts = opts0 \<rparr> recursion_bound
     (Table (Lit (VNum (- 1))) [(0, VStr ''F''), (10, VStr ''C''), (20, VStr ''B'')]) []"
  by code_simp+

lemma nested_samples:
  "resolve bag_name
     (out (eval_path \<lparr> c_engine = sample_env, c_bag = bag_name, c_opts = opts0 \<rparr> (Suc 9)
        [Key ''a''] [])) = Some (VStr ''${2/0}$'')"
  "has_formula ''${2/0}$''"
  "rng (eval_path \<lparr> c_engine = sample_env, c_bag = bag_name, c_opts = opts0 \<rparr> (Suc 9)
        [Key ''a''] []) = []"
  "parse sample_env ''${2/0}$'' =
     [Literal []] @ Expression (plug Hole (Bin Div (Lit (VNum 2)) (Lit (VNum 0)))) # [Literal []]"
  "reach \<lparr> c_engine = sample_env, c_bag = bag_name, c_opts = opts0 \<rparr> 9 Hole
     (rng (eval_segments \<lparr> c_engine = sample_env, c_bag = bag_name, c_opts = opts0 \<rparr> 9
        [Literal []] [])) = Some []"
  "fails \<lparr> c_engine = sample_env, c_bag = bag_name, c_opts = opts0 \<rparr> 9
     (Bin Div (Lit (VNum 2)) (Lit (VNum 0))) []"
  "out (eval \<lparr> c_engine = sample_env, c_bag = bag_name, c_opts = opts0 \<rparr> 9
     (Lit (VStr ''0'')) []) = VStr (opt_defaultValue opts0)"
  "rng (eval \<lparr> c_engine = sample_env, c_bag = bag_name, c_opts = opts0 \<rparr> 9
     (Lit (VStr ''0'')) []) =
   rng (eval \<lparr> c_engine = sample_env, c_bag = bag_name, c_opts = opts0 \<rparr> 9
     (Bin Div (Lit (VNum 2)) (Lit (VNum 0))) [])"
  "out (eval_segments \<lparr> c_engine = sample_env, c_bag = bag_name, c_opts = opts0 \<rparr> 9
     ([Literal []] @ Expression (plug Hole (Lit (VStr ''0''))) # [Literal []]) []) = ''0''"
  "sorted (map fst [(0::rat, VStr ''F''), (10, VStr ''C''), (20, VStr ''B'')])"
  "numeric sample_env
     (out (eval \<lparr> c_engine = sample_env, c_bag = bag_name, c_opts = opts0 \<rparr> recursion_bound
        (Lit (VNum (- 1))) [])) = Some (- 1)"
  by code_simp+

theorem compute_degrades_to_default_witness:
  "parse sample_env ''A ${1 + 2/0}$ B ${-name}$'' =
     [Literal ''A '',
      Expression (Bin Add (Lit (VNum 1)) (Bin Div (Lit (VNum 2)) (Lit (VNum 0)))),
      Literal '' B '', Expression (Neg (Ref [Key ''name''] None)), Literal []] \<and>
   fails \<lparr> c_engine = sample_env, c_bag = bag_name, c_opts = opts0 \<rparr> recursion_bound
     (Bin Div (Lit (VNum 2)) (Lit (VNum 0))) [] \<and>
   result (fst (compute sample_env ''A ${1 + 2/0}$ B ${-name}$'' bag_name opts0 [])) = ''A 1 B 0'' \<and>
   fails \<lparr> c_engine = sample_env, c_bag = bag_name, c_opts = opts0 \<rparr> recursion_bound
     (Neg (Ref [Key ''name''] None)) [] \<and>
   out (eval \<lparr> c_engine = sample_env, c_bag = bag_name, c_opts = opts0 \<rparr> recursion_bound
     (Neg (Ref [Key ''name''] None)) []) = VStr ''0'' \<and>
   fails \<lparr> c_engine = sample_env, c_bag = bag_name, c_opts = opts0 \<rparr> recursion_bound
     (Call ''max'' [Lit (VNum 1), Ref [Key ''name''] None]) [] \<and>
   out (eval \<lparr> c_engine = sample_env, c_bag = bag_name, c_opts = opts0 \<rparr> recursion_bound
     (Call ''max'' [Lit (VNum 1), Ref [Key ''name''] None]) []) = VStr ''0'' \<and>
   fails \<lparr> c_engine = sample_env, c_bag = bag_name, c_opts = opts0 \<rparr> recursion_bound
     (Bin Mul (Lit (VStr ''abc'')) (Lit (VNum 2))) [] \<and>
   out (eval \<lparr> c_engine = sample_env, c_bag = bag_name, c_opts = opts0 \<rparr> recursion_bound
     (Bin Mul (Lit (VStr ''abc'')) (Lit (VNum 2))) []) = VStr ''0'' \<and>
   fails \<lparr> c_engine = sample_env, c_bag = bag_name, c_opts = opts0 \<rparr> recursion_bound
     (Table (Lit (VNum (- 1))) [(0, VStr ''F''), (10, VStr ''C''), (20, VStr ''B'')]) [] \<and>
   out (eval \<lparr> c_engine = sample_env, c_bag = bag_name, c_opts = opts0 \<rparr> recursion_bound
     (Table (Lit (VNum (- 1))) [(0, VStr ''F''), (10, VStr ''C''), (20, VStr ''B'')]) []) = VStr ''0'' \<and>
   resolve bag_name
     (out (eval_path \<lparr> c_engine = sample_env, c_bag = bag_name, c_opts = opts0 \<rparr> (Suc 9)
        [Key ''a''] [])) = Some (VStr ''${2/0}$'') \<and>
   has_formula ''${2/0}$'' \<and>
   fails \<lparr> c_engine = sample_env, c_bag = bag_name, c_opts = opts0 \<rparr> 9
     (Bin Div (Lit (VNum 2)) (Lit (VNum 0))) [] \<and>
   out (eval \<lparr> c_engine = sample_env, c_bag = bag_name, c_opts = opts0 \<rparr> (Suc 9)
     (Ref [Key ''a''] None) []) = VStr ''0'' \<and>
   sorted (map fst [(0::rat, VStr ''F''), (10, VStr ''C''), (20, VStr ''B'')]) \<and>
   table_lookup [(0, VStr ''F''), (10, VStr ''C''), (20, VStr ''B'')] (- 1) = None"
proof -
  let ?C = "\<lparr> c_engine = sample_env, c_bag = bag_name, c_opts = opts0 \<rparr>"
  let ?rows = "[(0::rat, VStr ''F''), (10, VStr ''C''), (20, VStr ''B'')]"
  note t = compute_degrades_to_default [of sample_env bag_name opts0 "''A ${1 + 2/0}$ B ${-name}$''" "[]",
      unfolded Let_def]
  have d: "opt_defaultValue opts0 = ''0''" by (simp add: opts0_def)
  note t3 = t [THEN conjunct2, THEN conjunct2, THEN conjunct1, rule_format]
  note t4 = t [THEN conjunct2, THEN conjunct2, THEN conjunct2, THEN conjunct1, rule_format]
  from t3 have e: "\<And>d e g0. fails ?C d e g0 \<Longrightarrow> out (eval ?C d e g0) = VStr (opt_defaultValue opts0)"
    by blast
  from t4 have n: "\<And>pre K f post g0 f'.
      parse sample_env ''A ${1 + 2/0}$ B ${-name}$'' = pre @ Expression (plug K f) # post \<Longrightarrow>
      reach ?C recursion_bound K (rng (eval_segments ?C recursion_bound pre [])) = Some g0 \<Longrightarrow>
      fails ?C recursion_bound f g0 \<Longrightarrow>
      out (eval ?C recursion_bound f' g0) = VStr (opt_defaultValue opts0) \<Longrightarrow>
      rng (eval ?C recursion_bound f' g0) = rng (eval ?C recursion_bound f g0) \<Longrightarrow>
      result (fst (compute sample_env ''A ${1 + 2/0}$ B ${-name}$'' bag_name opts0 [])) =
        out (eval_segments ?C recursion_bound (pre @ Expression (plug K f') # post) [])"
    by blast
  note r = n [OF degraded_samples(1) degraded_samples(2) degraded_samples(3)
      degraded_samples(4) degraded_samples(5)]
  have p: "parse sample_env ''A ${1 + 2/0}$ B ${-name}$'' =
     [Literal ''A '',
      Expression (Bin Add (Lit (VNum 1)) (Bin Div (Lit (VNum 2)) (Lit (VNum 0)))),
      Literal '' B '', Expression (Neg (Ref [Key ''name''] None)), Literal []]"
    using degraded_samples(1) by simp
  note t5 = t [THEN conjunct2, THEN conjunct2, THEN conjunct2, THEN conjunct2, THEN conjunct1,
      rule_format]
  note t6 = t [THEN conjunct2, THEN conjunct2, THEN conjunct2, THEN conjunct2, THEN conjunct2,
      THEN conjunct1, rule_format]
  note t7 = t [THEN conjunct2, THEN conjunct2, THEN conjunct2, THEN conjunct2, THEN conjunct2,
      THEN conjunct2, rule_format]
  have r5: "out (eval ?C (Suc 9) (Ref [Key ''a''] None) []) =
      VStr (out (eval_segments ?C 9 (parse sample_env ''${2/0}$'') []))"
    using t5 [of 9 "[Key ''a'']" "[]" "''${2/0}$''" None] nested_samples(1,2,3) by simp
  have r6: "out (eval_segments ?C 9
        ([Literal []] @ Expression (plug Hole (Bin Div (Lit (VNum 2)) (Lit (VNum 0)))) # [Literal []]) []) =
      out (eval_segments ?C 9
        ([Literal []] @ Expression (plug Hole (Lit (VStr ''0''))) # [Literal []]) [])"
    using t6 [of 9 Hole "[Literal []]" "[]" "[]" "Bin Div (Lit (VNum 2)) (Lit (VNum 0))"
        "Lit (VStr ''0'')" "[Literal []]"]
      nested_samples(5,6,7,8) by simp
  have r7: "table_lookup ?rows (- 1) = None"
    using t7 [THEN conjunct2, THEN conjunct2, THEN conjunct2, THEN conjunct2, rule_format,
        OF nested_samples(10), of recursion_bound "Lit (VNum (- 1))" "[]"]
      degraded_samples(10) nested_samples(11)
    by simp
  show ?thesis
    using p r degraded_samples(3) degraded_samples(6)
      degraded_samples(7) e [OF degraded_samples(7)]
      degraded_samples(8) e [OF degraded_samples(8)]
      degraded_samples(9) e [OF degraded_samples(9)]
      degraded_samples(10) e [OF degraded_samples(10)]
      r5 r6 r7 nested_samples(1,2,4,6,9,10)
    by (simp add: d)
qed

text \<open>
  Two more runs of the sample engine. A failure inside a nested formula: the property
  \<^verbatim>\<open>a\<close> holds the formula \<^verbatim>\<open>${2/0}$\<close>, which gives the default value one level down,
  and the sum goes on from it. A failing operation whose operand rolls a die: the die is
  used up, and the second roll takes the next face.
\<close>

lemma nested_failure_samples:
  "compute sample_env ''x${a + 1}$'' bag_name opts0 [] =
     (\<lparr> result = ''x1'', explanation = Some [RefNote [''a''] (VStr ''0'')] \<rparr>, [])"
  "compute sample_env ''${1 + 1d6/0}$|${1d6}$'' bag_name opts0 [3, 4] =
     (\<lparr> result = ''1|4'', explanation = Some [DiceNote 1 6 [3] 3, DiceNote 1 6 [4] 4] \<rparr>, [])"
  by code_simp+

text \<open>
  The examples of the spec (section 8), on the sample engine: a dice roll in a phrase, a
  property that is present, a property that is missing, and the three table lookups.
\<close>

lemma spec_examples:
  "compute sample_env ''You rolled ${2d6+3}$'' (VObj []) opts0 [4, 5] =
     (\<lparr> result = ''You rolled 12'', explanation = Some [DiceNote 2 6 [4, 5] 9] \<rparr>, [])"
  "result (fst (compute sample_env ''${str}$'' (VObj [(''str'', VNum 7)]) opts0 [])) = ''7''"
  "result (fst (compute sample_env ''${missing}$'' (VObj []) opts0 [])) = ''0''"
  "table_lookup [(0, VStr ''F''), (10, VStr ''C''), (20, VStr ''B'')] 15 = Some (VStr ''C'')"
  "table_lookup [(0, VStr ''F''), (10, VStr ''C''), (20, VStr ''B'')] 5 = Some (VStr ''F'')"
  "table_lookup [(0, VStr ''F''), (10, VStr ''C''), (20, VStr ''B'')] (- 1) = None"
  by code_simp+

lemma scan_examples:
  "scan ''You rolled ${2d6+3}$ and ${x'' = [Text ''You rolled '', Span ''2d6+3'', Text '' and ${x'']"
  "scan ''${a}$${b}$'' = [Text [], Span ''a'', Text [], Span ''b'', Text []]"
  by code_simp+

lemma level_bounded:
  "level (eval C d e g) \<le> d"
  "level (evals C d es g) \<le> d"
  "level (eval_path C d ps g) \<le> d"
  "level (eval_segments C d ss g) \<le> d"
proof (induction C d e g and C d es g and C d ps g and C d ss g
       rule: eval_evals_eval_path_eval_segments.induct)
qed (auto simp: Let_def split: prod.splits option.splits pvalue.splits nat.splits)

text \<open>
  C8. \<^verbatim>\<open>compute\<close> is defined by a recursion that is well founded in the depth guard and
  the size of what is evaluated, so it returns for every property bag, whatever refers
  to whatever in it and whatever the option \<^verbatim>\<open>reference\<close> is; and it never enters more
  levels of nested formulas than the recursion bound.
\<close>

theorem compute_nesting_bounded:
  "nesting E rawFormula bag opts g \<le> recursion_bound \<and>
   (\<exists>r g'. compute E rawFormula bag opts g = (r, g'))"
  by (simp add: nesting_def level_bounded(4) compute_def Let_def)

lemma cycle_samples:
  "nesting sample_env ''${a}$'' bag_cycle
     \<lparr> opt_defaultValue = ''0'', computeExplanation = None, reference = Some (JStr ''a'') \<rparr> [] = 10"
  "fst (compute sample_env ''${a}$'' bag_cycle
     \<lparr> opt_defaultValue = ''0'', computeExplanation = None, reference = Some (JStr ''a'') \<rparr> []) =
     \<lparr> result = ''${b}$'', explanation = None \<rparr>"
  "getMinVal decimalToNumber sample_static
     (new_NumberField [''key'' \<mapsto> JStr ''a'', ''minVal'' \<mapsto> JStr ''${a}$'']) bag_cycle = NegInf"
  by code_simp+

theorem compute_nesting_bounded_witness:
  "nesting sample_env ''${a}$'' bag_cycle
     \<lparr> opt_defaultValue = ''0'', computeExplanation = None, reference = Some (JStr ''a'') \<rparr> [] = 10 \<and>
   recursion_bound = 10 \<and>
   fst (compute sample_env ''${a}$'' bag_cycle
     \<lparr> opt_defaultValue = ''0'', computeExplanation = None, reference = Some (JStr ''a'') \<rparr> []) =
     \<lparr> result = ''${b}$'', explanation = None \<rparr> \<and>
   getMinVal decimalToNumber sample_static
     (new_NumberField [''key'' \<mapsto> JStr ''a'', ''minVal'' \<mapsto> JStr ''${a}$'']) bag_cycle = NegInf"
  using compute_nesting_bounded [of sample_env "''${a}$''" bag_cycle
      "\<lparr> opt_defaultValue = ''0'', computeExplanation = None, reference = Some (JStr ''a'') \<rparr>" "[]"]
    cycle_samples
  by (simp add: recursion_bound_def)

end
